theory Spec2Isabelle
  imports Main
begin

section \<open>Data model\<close>

text \<open>
  The request handlers of the web application (routes/user.js, routes/product.js,
  routes/image.js, routes/health.js) are embedded as functions from an environment, the
  request data and the state of the world to a response and the new state of the world.
  The world holds the three tables the handlers touch through the ORM, the object store,
  the notifications sent, and the trace of collaborator calls in the order they were made.
\<close>

type_synonym uuid = string

text \<open>Timestamps are JavaScript Date values: milliseconds since the epoch.\<close>

type_synonym time = int

datatype jval = JUndefined | JNull | JBool bool | JNum int | JStr string

text \<open>models/User.js: the columns of the users table.\<close>

record user =
  id_user :: uuid
  first_name :: string
  last_name :: string
  password :: string
  username :: string
  account_created :: time
  account_updated :: time
  email_verified :: bool
  verification_token :: "string option"
  verification_token_expiry :: "time option"

text \<open>
  The Product model file is not among the sources; the columns are those the handlers of
  routes/product.js read and assign.
\<close>

record product =
  id_product :: uuid
  owner_user_id :: uuid
  name :: jval
  description :: jval
  sku :: jval
  manufacturer :: jval
  quantity :: jval

text \<open>models/Image.js.\<close>

record image =
  image_id :: uuid
  product_id :: uuid
  file_name :: string
  s3_bucket_path :: string
  date_created :: time

text \<open>The collaborator calls a handler can make; each one can throw.\<close>

datatype op =
    UserFindOne | UserFindByPk | UserCreate | UserSave
  | ProductFindAll | ProductCreate
  | ProductFindByPk | ProductFindOne | ProductSave | ProductDestroy
  | ImageFindOne | ImageFindAll | ImageCreate | ImageDestroy
  | S3Put | S3Delete | SnsPublish | HealthCheckCreate

datatype exn =
    SequelizeDatabaseError
  | SequelizeValidationError
  | SequelizeUniqueConstraintError
  | S3Error
  | SnsError

text \<open>The message published by utils/sns.js.\<close>

record sns_message =
  sns_email :: string
  sns_firstName :: string
  sns_lastName :: string
  sns_token :: string

record world =
  users :: "user list"
  products :: "product list"
  images :: "image list"
  health_checks :: "time list"
  s3_objects :: "(string \<times> nat list) list"
  sns_sent :: "sns_message list"
  calls :: "op list"

text \<open>Request bodies, as the handlers destructure them; an absent field is \<open>None\<close>
  (user bodies, whose fields are JSON strings) or \<open>JUndefined\<close> (product bodies).\<close>

record user_body =
  b_first_name :: "string option"
  b_last_name :: "string option"
  b_password :: "string option"
  b_username :: "string option"

record product_body =
  b_name :: jval
  b_description :: jval
  b_sku :: jval
  b_manufacturer :: jval
  b_quantity :: jval

text \<open>The file multer hands to the upload handler.\<close>

record upload_file =
  originalname :: string
  mimetype :: string
  buffer :: "nat list"

text \<open>
  The environment: which collaborator calls fail, the clock, the random identifiers, and
  the functions of the repository and of its libraries that are not among the sources
  (utils/validation.js, bcrypt, the isEmail validator, path.extname).
\<close>

record env =
  fails :: "op \<Rightarrow> bool"
  now :: time
  uuidv4 :: uuid
  default_uuid :: uuid
  randomUUID :: uuid
  bcrypt_hash :: "string \<Rightarrow> string"
  isEmail :: "string \<Rightarrow> bool"
  path_extname :: "string \<Rightarrow> string"
  validateUserCreate :: "user_body \<Rightarrow> string list"
  validateUserUpdate :: "user_body \<Rightarrow> string list"
  validateProductCreate :: "product_body \<Rightarrow> string list"
  validateProductUpdate :: "product_body \<Rightarrow> string list"
  validateProductPatch :: "product_body \<Rightarrow> string list"

datatype body =
    BEmpty
  | BError string
  | BErrors "string list"
  | BMessage string
  | BObject "(string \<times> jval) list"
  | BProduct product
  | BProducts "product list"
  | BImage image
  | BImages "image list"

record response =
  status :: nat
  headers :: "(string \<times> string) list"
  body :: body

definition resp :: "nat \<Rightarrow> body \<Rightarrow> response" where
  "resp st b = \<lparr>status = st, headers = [], body = b\<rparr>"

definition call :: "op \<Rightarrow> world \<Rightarrow> world" where
  "call c w = w\<lparr>calls := calls w @ [c]\<rparr>"

section \<open>The User model\<close>

definition jopt :: "string option \<Rightarrow> jval" where
  "jopt x = (case x of None \<Rightarrow> JNull | Some s \<Rightarrow> JStr s)"

definition jdate :: "time option \<Rightarrow> jval" where
  "jdate x = (case x of None \<Rightarrow> JNull | Some t \<Rightarrow> JNum t)"

text \<open>\<open>this.get()\<close>: every attribute of the instance, under its column name.\<close>

definition user_get :: "user \<Rightarrow> (string \<times> jval) list" where
  "user_get u =
    [(''id'', JStr (id_user u)),
     (''first_name'', JStr (first_name u)),
     (''last_name'', JStr (last_name u)),
     (''password'', JStr (password u)),
     (''username'', JStr (username u)),
     (''account_created'', JNum (account_created u)),
     (''account_updated'', JNum (account_updated u)),
     (''email_verified'', JBool (email_verified u)),
     (''verification_token'', jopt (verification_token u)),
     (''verification_token_expiry'', jdate (verification_token_expiry u))]"

text \<open>The JavaScript \<open>delete obj.key\<close> on an object held as a list of properties.\<close>

definition js_delete :: "string \<Rightarrow> (string \<times> jval) list \<Rightarrow> (string \<times> jval) list" where
  "js_delete k obj = filter (\<lambda>kv. fst kv \<noteq> k) obj"

text \<open>\<open>User.prototype.toJSON\<close>.\<close>

definition toJSON :: "user \<Rightarrow> (string \<times> jval) list" where
  "toJSON u =
    (let values = user_get u;
         values = js_delete ''password'' values;
         values = js_delete ''verification_token'' values;
         values = js_delete ''verification_token_expiry'' values
     in values)"

text \<open>\<open>User.findOne({ where: { username } })\<close>; Sequelize throws on an undefined
  value in a where clause.\<close>

definition User_findOne :: "env \<Rightarrow> string option \<Rightarrow> world \<Rightarrow> (exn + user option) \<times> world" where
  "User_findOne e un w =
    (let w1 = call UserFindOne w in
     case un of
       None \<Rightarrow> (Inl SequelizeDatabaseError, w1)
     | Some n \<Rightarrow>
         if fails e UserFindOne then (Inl SequelizeDatabaseError, w1)
         else (Inr (find (\<lambda>u. username u = n) (users w1)), w1))"

definition User_findByPk :: "env \<Rightarrow> uuid \<Rightarrow> world \<Rightarrow> (exn + user option) \<times> world" where
  "User_findByPk e uid w =
    (let w1 = call UserFindByPk w in
     if fails e UserFindByPk then (Inl SequelizeDatabaseError, w1)
     else (Inr (find (\<lambda>u. id_user u = uid) (users w1)), w1))"

text \<open>
  \<open>User.create\<close> with the values the registration handler passes: the columns are
  \<open>allowNull: false\<close>, the username is validated as an email and is unique, the
  password setter stores the bcrypt hash, and the id and the two account timestamps take
  their defaults.
\<close>

definition User_create ::
  "env \<Rightarrow> user_body \<Rightarrow> string \<Rightarrow> time \<Rightarrow> bool \<Rightarrow> world \<Rightarrow> (exn + user) \<times> world" where
  "User_create e b tok expiry verified w =
    (let w1 = call UserCreate w in
     case (b_first_name b, b_last_name b, b_password b, b_username b) of
       (Some fn, Some ln, Some pw, Some un) \<Rightarrow>
         if \<not> isEmail e un then (Inl SequelizeValidationError, w1)
         else if fails e UserCreate then (Inl SequelizeDatabaseError, w1)
         else if find (\<lambda>u. username u = un) (users w1) \<noteq> None
           then (Inl SequelizeUniqueConstraintError, w1)
         else
           (let u = \<lparr>id_user = default_uuid e, first_name = fn, last_name = ln,
                     password = bcrypt_hash e pw, username = un,
                     account_created = now e, account_updated = now e,
                     email_verified = verified,
                     verification_token = Some tok,
                     verification_token_expiry = Some expiry\<rparr>
            in (Inr u, w1\<lparr>users := users w1 @ [u]\<rparr>))
     | _ \<Rightarrow> (Inl SequelizeValidationError, w1))"

text \<open>
  \<open>instance.save()\<close> on a loaded instance: an UPDATE of the changed columns of the row
  with the instance's primary key; the \<open>beforeUpdate\<close> hook refreshes
  \<open>account_updated\<close>.
\<close>

definition User_save :: "env \<Rightarrow> uuid \<Rightarrow> (user \<Rightarrow> user) \<Rightarrow> world \<Rightarrow> (exn + unit) \<times> world" where
  "User_save e uid changes w =
    (let w1 = call UserSave w in
     if fails e UserSave then (Inl SequelizeDatabaseError, w1)
     else (Inr (),
           w1\<lparr>users := map (\<lambda>u. if id_user u = uid
                                 then (changes u)\<lparr>account_updated := now e\<rparr> else u)
                            (users w1)\<rparr>))"

text \<open>utils/sns.js \<open>publishUserRegistration\<close>: throws when the topic is not configured or
  the send fails.\<close>

definition publishUserRegistration :: "env \<Rightarrow> sns_message \<Rightarrow> world \<Rightarrow> (exn + unit) \<times> world" where
  "publishUserRegistration e m w =
    (let w1 = call SnsPublish w in
     if fails e SnsPublish then (Inl SnsError, w1)
     else (Inr (), w1\<lparr>sns_sent := sns_sent w1 @ [m]\<rparr>))"

section \<open>routes/user.js\<close>

text \<open>\<open>isValidUUID\<close>: the regular expression
  \<open>/^[0-9a-f]{8}-[0-9a-f]{4}-[0-9a-f]{4}-[0-9a-f]{4}-[0-9a-f]{12}$/i\<close>, matched from
  the left: a run of hexadecimal digits of the given length, then a hyphen, and the end
  of the string after the last run.\<close>

definition is_hex :: "char \<Rightarrow> bool" where
  "is_hex c = (c \<in> set ''0123456789abcdefABCDEF'')"

fun hex_run :: "nat \<Rightarrow> string \<Rightarrow> string option" where
  "hex_run 0 s = Some s"
| "hex_run (Suc n) [] = None"
| "hex_run (Suc n) (c # cs) = (if is_hex c then hex_run n cs else None)"

fun hyphen :: "string \<Rightarrow> string option" where
  "hyphen [] = None"
| "hyphen (c # cs) = (if c = CHR ''-'' then Some cs else None)"

definition isValidUUID :: "string \<Rightarrow> bool" where
  "isValidUUID s =
    (case Option.bind (hex_run 8 s) hyphen of None \<Rightarrow> False | Some s1 \<Rightarrow>
    (case Option.bind (hex_run 4 s1) hyphen of None \<Rightarrow> False | Some s2 \<Rightarrow>
    (case Option.bind (hex_run 4 s2) hyphen of None \<Rightarrow> False | Some s3 \<Rightarrow>
    (case Option.bind (hex_run 4 s3) hyphen of None \<Rightarrow> False | Some s4 \<Rightarrow>
     hex_run 12 s4 = Some []))))"

text \<open>JavaScript's \<open>!x\<close> on a query parameter or body field that is a string or absent.\<close>

definition falsy :: "string option \<Rightarrow> bool" where
  "falsy x = (case x of None \<Rightarrow> True | Some s \<Rightarrow> s = [])"

text \<open>POST /v1/user.\<close>

definition post_user_catch :: "exn \<Rightarrow> response" where
  "post_user_catch x =
    (if x = SequelizeValidationError then resp 400 (BError ''Validation error'')
     else resp 400 (BError ''Failed to create user''))"

definition post_user :: "env \<Rightarrow> user_body \<Rightarrow> world \<Rightarrow> response \<times> world" where
  "post_user e b w =
    (let validationErrors = validateUserCreate e b in
     if length validationErrors > 0 then (resp 400 (BErrors validationErrors), w)
     else
       case User_findOne e (b_username b) w of
         (Inl x, w1) \<Rightarrow> (post_user_catch x, w1)
       | (Inr (Some existingUser), w1) \<Rightarrow>
           (resp 400 (BError ''User with this email already exists''), w1)
       | (Inr None, w1) \<Rightarrow>
           (let verificationToken = uuidv4 e;
                tokenExpiry = now e + 60 * 1000
            in case User_create e b verificationToken tokenExpiry False w1 of
                 (Inl x, w2) \<Rightarrow> (post_user_catch x, w2)
               | (Inr u, w2) \<Rightarrow>
                   (let w3 = snd (publishUserRegistration e
                                   \<lparr>sns_email = username u, sns_firstName = first_name u,
                                    sns_lastName = last_name u, sns_token = verificationToken\<rparr> w2)
                    in (resp 201 (BObject (toJSON u)), w3))))"

text \<open>GET /v1/user/verify.\<close>

definition get_user_verify ::
  "env \<Rightarrow> string option \<Rightarrow> string option \<Rightarrow> world \<Rightarrow> response \<times> world" where
  "get_user_verify e email token w =
    (if falsy email \<or> falsy token
       then (resp 400 (BError ''Email and token are required''), w)
     else
       case User_findOne e email w of
         (Inl x, w1) \<Rightarrow> (resp 500 (BError ''Failed to verify email''), w1)
       | (Inr None, w1) \<Rightarrow> (resp 404 (BError ''User not found''), w1)
       | (Inr (Some u), w1) \<Rightarrow>
           if email_verified u then (resp 200 (BMessage ''Email already verified''), w1)
           else if verification_token u \<noteq> token
             then (resp 400 (BError ''Invalid verification token''), w1)
           else if now e > (case verification_token_expiry u of None \<Rightarrow> 0 | Some t \<Rightarrow> t)
             then (resp 400 (BError ''Verification token has expired''), w1)
           else
             (case User_save e (id_user u)
                     (\<lambda>r. r\<lparr>email_verified := True, verification_token := None,
                             verification_token_expiry := None\<rparr>) w1 of
                (Inl x, w2) \<Rightarrow> (resp 500 (BError ''Failed to verify email''), w2)
              | (Inr _, w2) \<Rightarrow> (resp 200 (BMessage ''Email verified successfully''), w2)))"

text \<open>GET /v1/user/self; \<open>actor\<close> is \<open>req.user\<close>, the instance the basicAuth
  middleware (not among the sources) attached to the request.\<close>

definition get_user_self :: "user \<Rightarrow> world \<Rightarrow> response \<times> world" where
  "get_user_self actor w = (resp 200 (BObject (toJSON actor)), w)"

text \<open>GET /v1/user/:userId.\<close>

definition get_user_by_id :: "env \<Rightarrow> user \<Rightarrow> string \<Rightarrow> world \<Rightarrow> response \<times> world" where
  "get_user_by_id e actor userId w =
    (if \<not> isValidUUID userId then (resp 400 BEmpty, w)
     else
       case User_findByPk e userId w of
         (Inl x, w1) \<Rightarrow> (resp 400 BEmpty, w1)
       | (Inr None, w1) \<Rightarrow> (resp 404 BEmpty, w1)
       | (Inr (Some u), w1) \<Rightarrow>
           if id_user actor \<noteq> userId then (resp 403 BEmpty, w1)
           else (resp 200 (BObject (toJSON actor)), w1))"

text \<open>PUT /v1/user/:userId. The three assignments and \<open>req.user.save()\<close> update the
  row of the authenticated user; the password setter hashes.\<close>

definition put_user_by_id ::
  "env \<Rightarrow> user \<Rightarrow> string \<Rightarrow> user_body \<Rightarrow> world \<Rightarrow> response \<times> world" where
  "put_user_by_id e actor userId b w =
    (if \<not> isValidUUID userId then (resp 400 BEmpty, w)
     else
       case User_findByPk e userId w of
         (Inl x, w1) \<Rightarrow> (resp 400 BEmpty, w1)
       | (Inr None, w1) \<Rightarrow> (resp 404 BEmpty, w1)
       | (Inr (Some u), w1) \<Rightarrow>
           if id_user actor \<noteq> userId then (resp 403 BEmpty, w1)
           else
             (let validationErrors = validateUserUpdate e b in
              if length validationErrors > 0 then (resp 400 (BErrors validationErrors), w1)
              else
                (case (b_first_name b, b_last_name b, b_password b) of
                   (Some fn, Some ln, Some pw) \<Rightarrow>
                     if fn = [] \<or> ln = [] \<or> pw = [] then (resp 400 BEmpty, w1)
                     else
                       (case User_save e (id_user actor)
                               (\<lambda>r. r\<lparr>first_name := fn, last_name := ln,
                                       password := bcrypt_hash e pw\<rparr>) w1 of
                          (Inl x, w2) \<Rightarrow> (resp 400 BEmpty, w2)
                        | (Inr _, w2) \<Rightarrow> (resp 204 BEmpty, w2))
                 | _ \<Rightarrow> (resp 400 BEmpty, w1))))"

section \<open>The Product and Image models\<close>

text \<open>\<open>Product.findAll({ where: { owner_user_id } })\<close>.\<close>

definition Product_findAll :: "env \<Rightarrow> uuid \<Rightarrow> world \<Rightarrow> (exn + product list) \<times> world" where
  "Product_findAll e owner w =
    (let w1 = call ProductFindAll w in
     if fails e ProductFindAll then (Inl SequelizeDatabaseError, w1)
     else (Inr (filter (\<lambda>p. owner_user_id p = owner) (products w1)), w1))"

definition Product_create ::
  "env \<Rightarrow> product_body \<Rightarrow> uuid \<Rightarrow> world \<Rightarrow> (exn + product) \<times> world" where
  "Product_create e b owner w =
    (let w1 = call ProductCreate w in
     if fails e ProductCreate then (Inl SequelizeDatabaseError, w1)
     else
       (let p = \<lparr>id_product = default_uuid e, owner_user_id = owner,
                 name = b_name b, description = b_description b, sku = b_sku b,
                 manufacturer = b_manufacturer b, quantity = b_quantity b\<rparr>
        in (Inr p, w1\<lparr>products := products w1 @ [p]\<rparr>)))"

definition Product_findByPk :: "env \<Rightarrow> uuid \<Rightarrow> world \<Rightarrow> (exn + product option) \<times> world" where
  "Product_findByPk e pid w =
    (let w1 = call ProductFindByPk w in
     if fails e ProductFindByPk then (Inl SequelizeDatabaseError, w1)
     else (Inr (find (\<lambda>p. id_product p = pid) (products w1)), w1))"

text \<open>\<open>Product.findOne({ where: { id: productId, owner_user_id: userId } })\<close>.\<close>

definition Product_findOne ::
  "env \<Rightarrow> uuid \<Rightarrow> uuid \<Rightarrow> world \<Rightarrow> (exn + product option) \<times> world" where
  "Product_findOne e pid owner w =
    (let w1 = call ProductFindOne w in
     if fails e ProductFindOne then (Inl SequelizeDatabaseError, w1)
     else (Inr (find (\<lambda>p. id_product p = pid \<and> owner_user_id p = owner) (products w1)), w1))"

definition Product_save ::
  "env \<Rightarrow> uuid \<Rightarrow> (product \<Rightarrow> product) \<Rightarrow> world \<Rightarrow> (exn + unit) \<times> world" where
  "Product_save e pid changes w =
    (let w1 = call ProductSave w in
     if fails e ProductSave then (Inl SequelizeDatabaseError, w1)
     else (Inr (),
           w1\<lparr>products := map (\<lambda>p. if id_product p = pid then changes p else p)
                               (products w1)\<rparr>))"

text \<open>\<open>product.destroy()\<close>; the foreign key of the images table cascades on delete
  (models/Image.js).\<close>

definition Product_destroy :: "env \<Rightarrow> uuid \<Rightarrow> world \<Rightarrow> (exn + unit) \<times> world" where
  "Product_destroy e pid w =
    (let w1 = call ProductDestroy w in
     if fails e ProductDestroy then (Inl SequelizeDatabaseError, w1)
     else (Inr (),
           w1\<lparr>products := filter (\<lambda>p. id_product p \<noteq> pid) (products w1),
              images := filter (\<lambda>i. product_id i \<noteq> pid) (images w1)\<rparr>))"

definition Image_findOne ::
  "env \<Rightarrow> uuid \<Rightarrow> uuid \<Rightarrow> world \<Rightarrow> (exn + image option) \<times> world" where
  "Image_findOne e iid pid w =
    (let w1 = call ImageFindOne w in
     if fails e ImageFindOne then (Inl SequelizeDatabaseError, w1)
     else (Inr (find (\<lambda>i. image_id i = iid \<and> product_id i = pid) (images w1)), w1))"

definition Image_findAll :: "env \<Rightarrow> uuid \<Rightarrow> world \<Rightarrow> (exn + image list) \<times> world" where
  "Image_findAll e pid w =
    (let w1 = call ImageFindAll w in
     if fails e ImageFindAll then (Inl SequelizeDatabaseError, w1)
     else (Inr (filter (\<lambda>i. product_id i = pid) (images w1)), w1))"

definition Image_create ::
  "env \<Rightarrow> uuid \<Rightarrow> string \<Rightarrow> string \<Rightarrow> world \<Rightarrow> (exn + image) \<times> world" where
  "Image_create e pid fileName s3Path w =
    (let w1 = call ImageCreate w in
     if fails e ImageCreate then (Inl SequelizeDatabaseError, w1)
     else
       (let i = \<lparr>image_id = default_uuid e, product_id = pid, file_name = fileName,
                 s3_bucket_path = s3Path, date_created = now e\<rparr>
        in (Inr i, w1\<lparr>images := images w1 @ [i]\<rparr>)))"

definition Image_destroy :: "env \<Rightarrow> uuid \<Rightarrow> world \<Rightarrow> (exn + unit) \<times> world" where
  "Image_destroy e iid w =
    (let w1 = call ImageDestroy w in
     if fails e ImageDestroy then (Inl SequelizeDatabaseError, w1)
     else (Inr (), w1\<lparr>images := filter (\<lambda>i. image_id i \<noteq> iid) (images w1)\<rparr>))"

section \<open>services/s3Service.js\<close>

text \<open>\<open>uploadImageToS3\<close>: the key is \<open>userId/productId/uuid.ext\<close>; a failed put is
  rethrown.\<close>

definition uploadImageToS3 ::
  "env \<Rightarrow> nat list \<Rightarrow> string \<Rightarrow> uuid \<Rightarrow> uuid \<Rightarrow> world \<Rightarrow> (exn + string \<times> string) \<times> world" where
  "uploadImageToS3 e fileBuffer originalFilename userId productId w =
    (let fileExtension = path_extname e originalFilename;
         uniqueFileName = randomUUID e @ fileExtension;
         s3Key = userId @ ''/'' @ productId @ ''/'' @ uniqueFileName;
         w1 = call S3Put w
     in if fails e S3Put then (Inl S3Error, w1)
        else (Inr (originalFilename, s3Key),
              w1\<lparr>s3_objects := filter (\<lambda>kv. fst kv \<noteq> s3Key) (s3_objects w1)
                                  @ [(s3Key, fileBuffer)]\<rparr>))"

text \<open>\<open>deleteImageFromS3\<close>: a failed delete is rethrown.\<close>

definition deleteImageFromS3 :: "env \<Rightarrow> string \<Rightarrow> world \<Rightarrow> (exn + unit) \<times> world" where
  "deleteImageFromS3 e s3Path w =
    (let w1 = call S3Delete w in
     if fails e S3Delete then (Inl S3Error, w1)
     else (Inr (), w1\<lparr>s3_objects := filter (\<lambda>kv. fst kv \<noteq> s3Path) (s3_objects w1)\<rparr>))"

section \<open>routes/product.js\<close>

text \<open>GET /v1/product.\<close>

definition get_products :: "env \<Rightarrow> user \<Rightarrow> world \<Rightarrow> response \<times> world" where
  "get_products e actor w =
    (case Product_findAll e (id_user actor) w of
       (Inl x, w1) \<Rightarrow> (resp 400 BEmpty, w1)
     | (Inr ps, w1) \<Rightarrow> (resp 200 (BProducts ps), w1))"

text \<open>POST /v1/product.\<close>

definition post_product :: "env \<Rightarrow> user \<Rightarrow> product_body \<Rightarrow> world \<Rightarrow> response \<times> world" where
  "post_product e actor b w =
    (let validationErrors = validateProductCreate e b in
     if length validationErrors > 0 then (resp 400 (BErrors validationErrors), w)
     else
       case Product_create e b (id_user actor) w of
         (Inl x, w1) \<Rightarrow> (resp 400 (BError ''Failed to create product''), w1)
       | (Inr p, w1) \<Rightarrow> (resp 201 (BProduct p), w1))"

text \<open>GET /v1/product/:productId.\<close>

definition get_product :: "env \<Rightarrow> user \<Rightarrow> uuid \<Rightarrow> world \<Rightarrow> response \<times> world" where
  "get_product e actor productId w =
    (case Product_findByPk e productId w of
       (Inl x, w1) \<Rightarrow> (resp 400 BEmpty, w1)
     | (Inr None, w1) \<Rightarrow> (resp 404 BEmpty, w1)
     | (Inr (Some p), w1) \<Rightarrow>
         if owner_user_id p \<noteq> id_user actor then (resp 403 BEmpty, w1)
         else (resp 200 (BProduct p), w1))"

text \<open>PUT /v1/product/:productId.\<close>

definition put_product ::
  "env \<Rightarrow> user \<Rightarrow> uuid \<Rightarrow> product_body \<Rightarrow> world \<Rightarrow> response \<times> world" where
  "put_product e actor productId b w =
    (case Product_findByPk e productId w of
       (Inl x, w1) \<Rightarrow> (resp 400 BEmpty, w1)
     | (Inr None, w1) \<Rightarrow> (resp 404 BEmpty, w1)
     | (Inr (Some p), w1) \<Rightarrow>
         if owner_user_id p \<noteq> id_user actor then (resp 403 BEmpty, w1)
         else
           (let validationErrors = validateProductUpdate e b in
            if length validationErrors > 0 then (resp 400 (BErrors validationErrors), w1)
            else
              (case Product_save e (id_product p)
                      (\<lambda>r. r\<lparr>name := b_name b, description := b_description b,
                              sku := b_sku b, manufacturer := b_manufacturer b,
                              quantity := b_quantity b\<rparr>) w1 of
                 (Inl x, w2) \<Rightarrow> (resp 400 BEmpty, w2)
               | (Inr _, w2) \<Rightarrow> (resp 204 BEmpty, w2))))"

text \<open>PATCH /v1/product/:productId. A field of a parsed JSON body is an own property
  exactly when it is not \<open>undefined\<close>.\<close>

definition hasValidField :: "product_body \<Rightarrow> bool" where
  "hasValidField b =
    list_ex (\<lambda>field. field \<noteq> JUndefined)
      [b_name b, b_description b, b_sku b, b_manufacturer b, b_quantity b]"

definition assign_if_defined :: "jval \<Rightarrow> jval \<Rightarrow> jval" where
  "assign_if_defined v old = (if v \<noteq> JUndefined then v else old)"

definition patch_product ::
  "env \<Rightarrow> user \<Rightarrow> uuid \<Rightarrow> product_body \<Rightarrow> world \<Rightarrow> response \<times> world" where
  "patch_product e actor productId b w =
    (case Product_findByPk e productId w of
       (Inl x, w1) \<Rightarrow> (resp 400 BEmpty, w1)
     | (Inr None, w1) \<Rightarrow> (resp 404 BEmpty, w1)
     | (Inr (Some p), w1) \<Rightarrow>
         if owner_user_id p \<noteq> id_user actor then (resp 403 BEmpty, w1)
         else
           (let validationErrors = validateProductPatch e b in
            if length validationErrors > 0 then (resp 400 (BErrors validationErrors), w1)
            else if \<not> hasValidField b then (resp 400 BEmpty, w1)
            else
              (case Product_save e (id_product p)
                      (\<lambda>r. r\<lparr>name := assign_if_defined (b_name b) (name r),
                              description := assign_if_defined (b_description b) (description r),
                              sku := assign_if_defined (b_sku b) (sku r),
                              manufacturer := assign_if_defined (b_manufacturer b) (manufacturer r),
                              quantity := assign_if_defined (b_quantity b) (quantity r)\<rparr>) w1 of
                 (Inl x, w2) \<Rightarrow> (resp 400 BEmpty, w2)
               | (Inr _, w2) \<Rightarrow> (resp 204 BEmpty, w2))))"

text \<open>DELETE /v1/product/:productId.\<close>

definition delete_product :: "env \<Rightarrow> user \<Rightarrow> uuid \<Rightarrow> world \<Rightarrow> response \<times> world" where
  "delete_product e actor productId w =
    (case Product_findByPk e productId w of
       (Inl x, w1) \<Rightarrow> (resp 400 BEmpty, w1)
     | (Inr None, w1) \<Rightarrow> (resp 404 BEmpty, w1)
     | (Inr (Some p), w1) \<Rightarrow>
         if owner_user_id p \<noteq> id_user actor then (resp 403 BEmpty, w1)
         else
           (case Product_destroy e (id_product p) w1 of
              (Inl x, w2) \<Rightarrow> (resp 400 BEmpty, w2)
            | (Inr _, w2) \<Rightarrow> (resp 204 BEmpty, w2)))"

section \<open>routes/image.js\<close>

definition not_found_or_forbidden :: body where
  "not_found_or_forbidden = BError ''Product not found or you do not have permission''"

text \<open>POST /v1/product/:productId/image; \<open>file\<close> is \<open>req.file\<close>, set by the multer
  middleware when an accepted file was uploaded.\<close>

definition post_image ::
  "env \<Rightarrow> user \<Rightarrow> uuid \<Rightarrow> upload_file option \<Rightarrow> world \<Rightarrow> response \<times> world" where
  "post_image e actor productId file w =
    (let userId = id_user actor in
     case file of
       None \<Rightarrow> (resp 400 (BError ''No image file provided''), w)
     | Some f \<Rightarrow>
        (case Product_findOne e productId userId w of
           (Inl x, w1) \<Rightarrow> (resp 500 (BError ''Failed to upload image''), w1)
         | (Inr None, w1) \<Rightarrow> (resp 403 not_found_or_forbidden, w1)
         | (Inr (Some p), w1) \<Rightarrow>
            (case uploadImageToS3 e (buffer f) (originalname f) userId productId w1 of
               (Inl x, w2) \<Rightarrow> (resp 500 (BError ''Failed to upload image''), w2)
             | (Inr (fileName, s3Path), w2) \<Rightarrow>
                (case Image_create e productId fileName s3Path w2 of
                   (Inl x, w3) \<Rightarrow> (resp 500 (BError ''Failed to upload image''), w3)
                 | (Inr i, w3) \<Rightarrow> (resp 201 (BImage i), w3)))))"

text \<open>GET /v1/product/:productId/image/:imageId.\<close>

definition get_image :: "env \<Rightarrow> user \<Rightarrow> uuid \<Rightarrow> uuid \<Rightarrow> world \<Rightarrow> response \<times> world" where
  "get_image e actor productId imageId w =
    (let userId = id_user actor in
     case Product_findOne e productId userId w of
       (Inl x, w1) \<Rightarrow> (resp 500 (BError ''Failed to retrieve image''), w1)
     | (Inr None, w1) \<Rightarrow> (resp 403 not_found_or_forbidden, w1)
     | (Inr (Some p), w1) \<Rightarrow>
        (case Image_findOne e imageId productId w1 of
           (Inl x, w2) \<Rightarrow> (resp 500 (BError ''Failed to retrieve image''), w2)
         | (Inr None, w2) \<Rightarrow> (resp 404 (BError ''Image not found''), w2)
         | (Inr (Some i), w2) \<Rightarrow> (resp 200 (BImage i), w2)))"

text \<open>GET /v1/product/:productId/image.\<close>

definition get_images :: "env \<Rightarrow> user \<Rightarrow> uuid \<Rightarrow> world \<Rightarrow> response \<times> world" where
  "get_images e actor productId w =
    (let userId = id_user actor in
     case Product_findOne e productId userId w of
       (Inl x, w1) \<Rightarrow> (resp 500 (BError ''Failed to retrieve images''), w1)
     | (Inr None, w1) \<Rightarrow> (resp 403 not_found_or_forbidden, w1)
     | (Inr (Some p), w1) \<Rightarrow>
        (case Image_findAll e productId w1 of
           (Inl x, w2) \<Rightarrow> (resp 500 (BError ''Failed to retrieve images''), w2)
         | (Inr is, w2) \<Rightarrow> (resp 200 (BImages is), w2)))"

text \<open>DELETE /v1/product/:productId/image/:imageId.\<close>

definition delete_image :: "env \<Rightarrow> user \<Rightarrow> uuid \<Rightarrow> uuid \<Rightarrow> world \<Rightarrow> response \<times> world" where
  "delete_image e actor productId imageId w =
    (let userId = id_user actor in
     case Product_findOne e productId userId w of
       (Inl x, w1) \<Rightarrow> (resp 500 (BError ''Failed to delete image''), w1)
     | (Inr None, w1) \<Rightarrow> (resp 403 not_found_or_forbidden, w1)
     | (Inr (Some p), w1) \<Rightarrow>
        (case Image_findOne e imageId productId w1 of
           (Inl x, w2) \<Rightarrow> (resp 500 (BError ''Failed to delete image''), w2)
         | (Inr None, w2) \<Rightarrow> (resp 404 (BError ''Image not found''), w2)
         | (Inr (Some i), w2) \<Rightarrow>
            (case deleteImageFromS3 e (s3_bucket_path i) w2 of
               (Inl x, w3) \<Rightarrow> (resp 500 (BError ''Failed to delete image''), w3)
             | (Inr _, w3) \<Rightarrow>
                (case Image_destroy e (image_id i) w3 of
                   (Inl x, w4) \<Rightarrow> (resp 500 (BError ''Failed to delete image''), w4)
                 | (Inr _, w4) \<Rightarrow> (resp 204 BEmpty, w4)))))"

section \<open>routes/health.js\<close>

datatype http_method = GET | HEAD | POST | PUT | DELETE | CONNECT | OPTIONS | TRACE | PATCH

text \<open>\<open>req.body\<close> as the handler sees it after \<open>express.json()\<close>: undefined, an
  object or an array.\<close>

datatype req_body = BodyUndefined | BodyObject "(string \<times> jval) list" | BodyArray "jval list"

text \<open>\<open>req.body && Object.keys(req.body).length > 0\<close>.\<close>

definition has_payload :: "req_body \<Rightarrow> bool" where
  "has_payload rb =
    (case rb of
       BodyUndefined \<Rightarrow> False
     | BodyObject kvs \<Rightarrow> length kvs > 0
     | BodyArray xs \<Rightarrow> length xs > 0)"

definition no_cache_headers :: "(string \<times> string) list" where
  "no_cache_headers =
    [(''Cache-Control'', ''no-cache, no-store, must-revalidate''),
     (''Pragma'', ''no-cache''),
     (''X-Content-Type-Options'', ''nosniff'')]"

definition HealthCheck_create :: "env \<Rightarrow> world \<Rightarrow> (exn + unit) \<times> world" where
  "HealthCheck_create e w =
    (let w1 = call HealthCheckCreate w in
     if fails e HealthCheckCreate then (Inl SequelizeDatabaseError, w1)
     else (Inr (), w1\<lparr>health_checks := health_checks w1 @ [now e]\<rparr>))"

text \<open>The handler registered with \<open>router.get('/healthz', ...)\<close>.\<close>

definition healthz_get :: "env \<Rightarrow> req_body \<Rightarrow> world \<Rightarrow> response \<times> world" where
  "healthz_get e rb w =
    (if has_payload rb
       then (\<lparr>status = 400, headers = no_cache_headers, body = BEmpty\<rparr>, w)
     else
       case HealthCheck_create e w of
         (Inl x, w1) \<Rightarrow> (\<lparr>status = 503, headers = no_cache_headers, body = BEmpty\<rparr>, w1)
       | (Inr _, w1) \<Rightarrow> (\<lparr>status = 200, headers = no_cache_headers, body = BEmpty\<rparr>, w1))"

text \<open>The handler registered with \<open>router.all('/healthz', ...)\<close>.\<close>

definition healthz_all :: "world \<Rightarrow> response \<times> world" where
  "healthz_all w = (\<lparr>status = 405, headers = no_cache_headers, body = BEmpty\<rparr>, w)"

text \<open>
  The two routes in the order they are registered. An Express route registered with
  \<open>router.get\<close> handles GET and, when the route has no handler for HEAD of its own,
  HEAD as well; the GET handler ends the response, so the \<open>router.all\<close> route is
  reached only by the methods the first route does not handle.
\<close>

definition get_route_handles :: "http_method \<Rightarrow> bool" where
  "get_route_handles m = (m = GET \<or> m = HEAD)"

definition healthz :: "env \<Rightarrow> http_method \<Rightarrow> req_body \<Rightarrow> world \<Rightarrow> response \<times> world" where
  "healthz e m rb w = (if get_route_handles m then healthz_get e rb w else healthz_all w)"

section \<open>The operations of the API\<close>

datatype request =
    PostUser user_body
  | GetUserVerify "string option" "string option"
  | GetUserSelf user
  | GetUserById user string
  | PutUserById user string user_body
  | GetProducts user
  | PostProduct user product_body
  | GetProduct user uuid
  | PutProduct user uuid product_body
  | PatchProduct user uuid product_body
  | DeleteProduct user uuid
  | PostImage user uuid "upload_file option"
  | GetImage user uuid uuid
  | GetImages user uuid
  | DeleteImage user uuid uuid
  | Healthz http_method req_body

fun handle :: "env \<Rightarrow> request \<Rightarrow> world \<Rightarrow> response \<times> world" where
  "handle e (PostUser b) w = post_user e b w"
| "handle e (GetUserVerify email token) w = get_user_verify e email token w"
| "handle e (GetUserSelf actor) w = get_user_self actor w"
| "handle e (GetUserById actor userId) w = get_user_by_id e actor userId w"
| "handle e (PutUserById actor userId b) w = put_user_by_id e actor userId b w"
| "handle e (GetProducts actor) w = get_products e actor w"
| "handle e (PostProduct actor b) w = post_product e actor b w"
| "handle e (GetProduct actor pid) w = get_product e actor pid w"
| "handle e (PutProduct actor pid b) w = put_product e actor pid b w"
| "handle e (PatchProduct actor pid b) w = patch_product e actor pid b w"
| "handle e (DeleteProduct actor pid) w = delete_product e actor pid w"
| "handle e (PostImage actor pid file) w = post_image e actor pid file w"
| "handle e (GetImage actor pid iid) w = get_image e actor pid iid w"
| "handle e (GetImages actor pid) w = get_images e actor pid w"
| "handle e (DeleteImage actor pid iid) w = delete_image e actor pid iid w"
| "handle e (Healthz m rb) w = healthz e m rb w"

section \<open>The properties of the identity record\<close>

text \<open>A verified identity holds no token, and the token and its expiry are both null
  or both set.\<close>

definition identity_inv :: "user \<Rightarrow> bool" where
  "identity_inv u =
    ((email_verified u \<longrightarrow> verification_token u = None)
     \<and> (verification_token u = None) = (verification_token_expiry u = None))"

definition verification_fields :: "user \<Rightarrow> bool \<times> string option \<times> time option" where
  "verification_fields u =
    (email_verified u, verification_token u, verification_token_expiry u)"

definition secret_keys :: "string list" where
  "secret_keys = [''password'', ''verification_token'', ''verification_token_expiry'']"

text \<open>The keys of a serialized identity in a response body; other bodies carry no
  identity.\<close>

definition identity_keys :: "body \<Rightarrow> string list" where
  "identity_keys b = (case b of BObject kvs \<Rightarrow> map fst kvs | _ \<Rightarrow> [])"

text \<open>The specification's reading of a well-formed UUID: groups of 8, 4, 4, 4 and 12
  hexadecimal digits of either case, separated by hyphens, and nothing else.\<close>

definition uuid_template :: string where
  "uuid_template =
    replicate 8 (CHR ''x'') @ ''-'' @ replicate 4 (CHR ''x'') @ ''-'' @
    replicate 4 (CHR ''x'') @ ''-'' @ replicate 4 (CHR ''x'') @ ''-'' @
    replicate 12 (CHR ''x'')"

definition fits :: "char \<Rightarrow> char \<Rightarrow> bool" where
  "fits t c = (if t = CHR ''-'' then c = CHR ''-'' else is_hex c)"

definition well_formed_uuid :: "string \<Rightarrow> bool" where
  "well_formed_uuid s = list_all2 fits uuid_template s"

section \<open>Sample data\<close>

definition env0 :: env where
  "env0 = \<lparr>fails = (\<lambda>c. False), now = 1700000030000,
           uuidv4 = ''0b0e7a52-9c1d-4e6f-8a3b-5d2c1f0e9a77'',
           default_uuid = ''7f3c2b1a-4d5e-4f60-9a8b-1c2d3e4f5a6b'',
           randomUUID = ''c0ffee00-1234-4abc-9def-0123456789ab'',
           bcrypt_hash = (\<lambda>s. ''$2b$10$'' @ rev s),
           isEmail = (\<lambda>s. CHR ''@'' \<in> set s),
           path_extname = (\<lambda>s. ''.png''),
           validateUserCreate = (\<lambda>b. []),
           validateUserUpdate = (\<lambda>b. []),
           validateProductCreate = (\<lambda>b. []),
           validateProductUpdate = (\<lambda>b. []),
           validateProductPatch = (\<lambda>b. [])\<rparr>"

definition alice :: user where
  "alice = \<lparr>id_user = ''11111111-1111-4111-8111-111111111111'',
            first_name = ''Alice'', last_name = ''Liddell'',
            password = ''$2b$10$ecila'', username = ''alice@example.com'',
            account_created = 1700000000000, account_updated = 1700000000000,
            email_verified = False,
            verification_token = Some ''aaaaaaaa-0000-4000-8000-000000000001'',
            verification_token_expiry = Some 1700000060000\<rparr>"

definition bob :: user where
  "bob = \<lparr>id_user = ''22222222-2222-4222-8222-222222222222'',
          first_name = ''Bob'', last_name = ''Builder'',
          password = ''$2b$10$bob'', username = ''bob@example.com'',
          account_created = 1690000000000, account_updated = 1690000040000,
          email_verified = True,
          verification_token = None,
          verification_token_expiry = None\<rparr>"

definition widget :: product where
  "widget = \<lparr>id_product = ''33333333-3333-4333-8333-333333333333'',
             owner_user_id = ''22222222-2222-4222-8222-222222222222'',
             name = JStr ''Widget'', description = JStr ''A widget'',
             sku = JStr ''W-1'', manufacturer = JStr ''Acme'', quantity = JNum 5\<rparr>"

definition photo :: image where
  "photo = \<lparr>image_id = ''44444444-4444-4444-8444-444444444444'',
            product_id = ''33333333-3333-4333-8333-333333333333'',
            file_name = ''widget.png'',
            s3_bucket_path = ''22222222-2222-4222-8222-222222222222/33333333-3333-4333-8333-333333333333/55555555-5555-4555-8555-555555555555.png'',
            date_created = 1690000050000\<rparr>"

definition world0 :: world where
  "world0 = \<lparr>users = [alice, bob], products = [widget], images = [photo],
             health_checks = [],
             s3_objects = [(s3_bucket_path photo, [137, 80, 78, 71])],
             sns_sent = [], calls = []\<rparr>"

definition carol_body :: user_body where
  "carol_body = \<lparr>b_first_name = Some ''Carol'', b_last_name = Some ''Danvers'',
                 b_password = Some ''s3cret!'', b_username = Some ''carol@example.com''\<rparr>"

definition gadget_body :: product_body where
  "gadget_body = \<lparr>b_name = JStr ''Gadget'', b_description = JStr ''A gadget'',
                  b_sku = JStr ''G-7'', b_manufacturer = JStr ''Acme'', b_quantity = JNum 3\<rparr>"

definition png_file :: upload_file where
  "png_file = \<lparr>originalname = ''front.png'', mimetype = ''image/png'',
               buffer = [137, 80, 78, 71, 13, 10]\<rparr>"


section \<open>Verification of an email address\<close>

lemma find_map_preserved:
  "(\<And>x. P (g x) = P x) \<Longrightarrow> find P (map g xs) = map_option g (find P xs)"
  by (induction xs) simp_all

text \<open>
  C3. For an unverified identity whose stored token is the presented one, the expiry
  comparison is strict: a check at an instant after the expiry is answered 400 "Verification
  token has expired" and leaves the users table as it was; a check at or before the
  expiry, the expiry instant included, is answered 200 and the identity found under that
  email is then verified, with its token and expiry cleared. The email and the token are
  presented (non-empty), and the lookup and the save do not throw.
\<close>

theorem verify_expiry_strict:
  assumes "email \<noteq> []" and "tok \<noteq> []"
    and "find (\<lambda>u. username u = email) (users w) = Some u"
    and "\<not> email_verified u"
    and "verification_token u = Some tok"
    and "verification_token_expiry u = Some expiry"
    and "\<not> fails e UserFindOne" and "\<not> fails e UserSave"
  shows "(now e > expiry \<longrightarrow>
            fst (get_user_verify e (Some email) (Some tok) w)
              = resp 400 (BError ''Verification token has expired'')
          \<and> users (snd (get_user_verify e (Some email) (Some tok) w)) = users w)
       \<and> (now e \<le> expiry \<longrightarrow>
            fst (get_user_verify e (Some email) (Some tok) w)
              = resp 200 (BMessage ''Email verified successfully'')
          \<and> find (\<lambda>u. username u = email)
                (users (snd (get_user_verify e (Some email) (Some tok) w)))
              = Some (u\<lparr>email_verified := True, verification_token := None,
                        verification_token_expiry := None, account_updated := now e\<rparr>))"
  using assms
  by (auto simp add: get_user_verify_def falsy_def User_findOne_def User_save_def call_def
      find_map_preserved)

theorem verify_expiry_strict_witness:
  "find (\<lambda>u. username u = ''alice@example.com'') (users world0) = Some alice
   \<and> \<not> email_verified alice
   \<and> verification_token alice = Some ''aaaaaaaa-0000-4000-8000-000000000001''
   \<and> verification_token_expiry alice = Some 1700000060000
   \<and> now (env0\<lparr>now := 1700000060001\<rparr>) > 1700000060000
   \<and> status (fst (get_user_verify (env0\<lparr>now := 1700000060001\<rparr>) (Some ''alice@example.com'')
        (Some ''aaaaaaaa-0000-4000-8000-000000000001'') world0)) = 400
   \<and> users (snd (get_user_verify (env0\<lparr>now := 1700000060001\<rparr>) (Some ''alice@example.com'')
        (Some ''aaaaaaaa-0000-4000-8000-000000000001'') world0)) = [alice, bob]
   \<and> now (env0\<lparr>now := 1700000060000\<rparr>) \<le> 1700000060000
   \<and> status (fst (get_user_verify (env0\<lparr>now := 1700000060000\<rparr>) (Some ''alice@example.com'')
        (Some ''aaaaaaaa-0000-4000-8000-000000000001'') world0)) = 200
   \<and> map_option email_verified (find (\<lambda>u. username u = ''alice@example.com'')
        (users (snd (get_user_verify (env0\<lparr>now := 1700000060000\<rparr>) (Some ''alice@example.com'')
        (Some ''aaaaaaaa-0000-4000-8000-000000000001'') world0)))) = Some True"
proof -
  have f: "find (\<lambda>u. username u = ''alice@example.com'') (users world0) = Some alice"
    by (simp add: world0_def alice_def)
  have v: "\<not> email_verified alice"
    and t: "verification_token alice = Some ''aaaaaaaa-0000-4000-8000-000000000001''"
    and x: "verification_token_expiry alice = Some 1700000060000"
    by (simp_all add: alice_def)
  have late: "\<not> fails (env0\<lparr>now := 1700000060001\<rparr>) UserFindOne"
             "\<not> fails (env0\<lparr>now := 1700000060001\<rparr>) UserSave"
    and exact: "\<not> fails (env0\<lparr>now := 1700000060000\<rparr>) UserFindOne"
               "\<not> fails (env0\<lparr>now := 1700000060000\<rparr>) UserSave"
    by (simp_all add: env0_def)
  note a = verify_expiry_strict [OF _ _ f v t x late]
  note b = verify_expiry_strict [OF _ _ f v t x exact]
  show ?thesis
    using f v t x a b by (simp add: resp_def world0_def)
qed

text \<open>
  C4. For an identity that is already verified, a check on its email with any presented
  (non-empty) token, matching or not, is answered 200 "Email already verified"; the world
  afterwards differs from the one before only by the record of the lookup, and a second
  check, with any token again, gets the same answer and leaves the tables as they were.
\<close>

theorem verify_already_verified_idempotent:
  assumes "email \<noteq> []" and "token \<noteq> []" and "token' \<noteq> []"
    and "find (\<lambda>u. username u = email) (users w) = Some u"
    and "email_verified u"
    and "\<not> fails e UserFindOne" and "\<not> fails e' UserFindOne"
  shows "get_user_verify e (Some email) (Some token) w
           = (resp 200 (BMessage ''Email already verified''),
              w\<lparr>calls := calls w @ [UserFindOne]\<rparr>)
       \<and> get_user_verify e' (Some email) (Some token')
             (snd (get_user_verify e (Some email) (Some token) w))
           = (resp 200 (BMessage ''Email already verified''),
              w\<lparr>calls := calls w @ [UserFindOne, UserFindOne]\<rparr>)"
  using assms
  by (simp add: get_user_verify_def falsy_def User_findOne_def call_def)

theorem verify_already_verified_idempotent_witness:
  "find (\<lambda>u. username u = ''bob@example.com'') (users world0) = Some bob
   \<and> email_verified bob
   \<and> verification_token bob \<noteq> Some ''not-the-token''
   \<and> fst (get_user_verify env0 (Some ''bob@example.com'') (Some ''not-the-token'') world0)
        = resp 200 (BMessage ''Email already verified'')
   \<and> users (snd (get_user_verify env0 (Some ''bob@example.com'') (Some ''not-the-token'') world0))
        = users world0
   \<and> fst (get_user_verify env0 (Some ''bob@example.com'') (Some ''another'')
          (snd (get_user_verify env0 (Some ''bob@example.com'') (Some ''not-the-token'') world0)))
        = resp 200 (BMessage ''Email already verified'')"
proof -
  have f: "find (\<lambda>u. username u = ''bob@example.com'') (users world0) = Some bob"
    by (simp add: world0_def alice_def bob_def)
  have v: "email_verified bob" and t: "verification_token bob \<noteq> Some ''not-the-token''"
    by (simp_all add: bob_def)
  have ok: "\<not> fails env0 UserFindOne"
    by (simp add: env0_def)
  note a = verify_already_verified_idempotent
             [of "''bob@example.com''" "''not-the-token''" "''another''", OF _ _ _ f v ok ok]
  note a1 = a [THEN conjunct1]
  note a2 = a [THEN conjunct2, unfolded a1 snd_conv]
  show ?thesis
    using f v t a1 a2 by simp
qed

section \<open>Ownership of products\<close>

lemma find_filter_none: "find (\<lambda>p. f p = k) (filter (\<lambda>p. f p \<noteq> k) xs) = None"
  by (induction xs) simp_all

lemma find_Some_holds: "find P xs = Some x \<Longrightarrow> P x"
  by (induction xs) (auto split: if_splits)

lemmas product_defs =
  get_product_def put_product_def patch_product_def delete_product_def
  Product_findByPk_def Product_save_def Product_destroy_def call_def

text \<open>
  C1. For GET, PUT, PATCH and DELETE on /v1/product/:productId by an authenticated actor,
  with the lookup not throwing: when no product has the id the answer is 404 whoever the
  actor is; when the product exists and its owner is not the actor the answer is 403;
  in both cases nothing but the lookup happens, so the product is unchanged. When the
  actor is the owner the answer is neither 403 nor 404 and the operation goes on: GET
  returns the product, DELETE removes it, PUT and PATCH with a valid body store the new
  fields.
\<close>

theorem product_existence_before_ownership:
  assumes lookup: "\<not> fails e ProductFindByPk"
    and op: "r \<in> {GetProduct actor pid, PutProduct actor pid b,
                    PatchProduct actor pid b, DeleteProduct actor pid}"
  shows
   "(find (\<lambda>p. id_product p = pid) (products w) = None \<longrightarrow>
        handle e r w = (resp 404 BEmpty, w\<lparr>calls := calls w @ [ProductFindByPk]\<rparr>))
  \<and> (\<forall>p. find (\<lambda>p. id_product p = pid) (products w) = Some p
           \<and> owner_user_id p \<noteq> id_user actor \<longrightarrow>
        handle e r w = (resp 403 BEmpty, w\<lparr>calls := calls w @ [ProductFindByPk]\<rparr>))
  \<and> (\<forall>p. find (\<lambda>p. id_product p = pid) (products w) = Some p
           \<and> owner_user_id p = id_user actor \<longrightarrow>
        status (fst (handle e r w)) \<notin> {403, 404}
      \<and> (r = GetProduct actor pid \<longrightarrow> fst (handle e r w) = resp 200 (BProduct p))
      \<and> (r = DeleteProduct actor pid \<and> \<not> fails e ProductDestroy \<longrightarrow>
            status (fst (handle e r w)) = 204
          \<and> find (\<lambda>p. id_product p = pid) (products (snd (handle e r w))) = None)
      \<and> (r = PutProduct actor pid b \<and> validateProductUpdate e b = []
            \<and> \<not> fails e ProductSave \<longrightarrow>
            status (fst (handle e r w)) = 204
          \<and> find (\<lambda>p. id_product p = pid) (products (snd (handle e r w)))
              = Some (p\<lparr>name := b_name b, description := b_description b, sku := b_sku b,
                        manufacturer := b_manufacturer b, quantity := b_quantity b\<rparr>))
      \<and> (r = PatchProduct actor pid b \<and> validateProductPatch e b = [] \<and> hasValidField b
            \<and> \<not> fails e ProductSave \<longrightarrow>
            status (fst (handle e r w)) = 204
          \<and> find (\<lambda>p. id_product p = pid) (products (snd (handle e r w)))
              = Some (p\<lparr>name := assign_if_defined (b_name b) (name p),
                        description := assign_if_defined (b_description b) (description p),
                        sku := assign_if_defined (b_sku b) (sku p),
                        manufacturer := assign_if_defined (b_manufacturer b) (manufacturer p),
                        quantity := assign_if_defined (b_quantity b) (quantity p)\<rparr>)))"
proof (intro conjI allI impI)
  assume "find (\<lambda>p. id_product p = pid) (products w) = None"
  with lookup op
  show "handle e r w = (resp 404 BEmpty, w\<lparr>calls := calls w @ [ProductFindByPk]\<rparr>)"
    by (auto simp add: product_defs)
next
  fix p
  assume "find (\<lambda>p. id_product p = pid) (products w) = Some p
          \<and> owner_user_id p \<noteq> id_user actor"
  with lookup op
  show "handle e r w = (resp 403 BEmpty, w\<lparr>calls := calls w @ [ProductFindByPk]\<rparr>)"
    by (auto simp add: product_defs)
next
  fix p
  assume own: "find (\<lambda>p. id_product p = pid) (products w) = Some p
               \<and> owner_user_id p = id_user actor"
  with lookup op
  show "status (fst (handle e r w)) \<notin> {403, 404}"
    by (auto simp add: product_defs resp_def Let_def split: prod.splits sum.splits if_splits)
  from own lookup
  show "fst (handle e r w) = resp 200 (BProduct p)" if "r = GetProduct actor pid"
    using that by (simp add: product_defs)
  from own have idp: "id_product p = pid"
    by (auto dest: find_Some_holds)
  from own lookup
  show "status (fst (handle e r w)) = 204"
    if "r = DeleteProduct actor pid \<and> \<not> fails e ProductDestroy"
    using that by (simp add: product_defs resp_def)
  from own lookup idp
  show "find (\<lambda>p. id_product p = pid) (products (snd (handle e r w))) = None"
    if "r = DeleteProduct actor pid \<and> \<not> fails e ProductDestroy"
    using that by (simp add: product_defs find_filter_none)
  from own lookup
  show "status (fst (handle e r w)) = 204"
    if "r = PutProduct actor pid b \<and> validateProductUpdate e b = []
         \<and> \<not> fails e ProductSave"
    using that by (simp add: product_defs resp_def)
  from own lookup idp
  show "find (\<lambda>p. id_product p = pid) (products (snd (handle e r w)))
              = Some (p\<lparr>name := b_name b, description := b_description b, sku := b_sku b,
                        manufacturer := b_manufacturer b, quantity := b_quantity b\<rparr>)"
    if "r = PutProduct actor pid b \<and> validateProductUpdate e b = []
         \<and> \<not> fails e ProductSave"
    using that by (simp add: product_defs find_map_preserved)
  from own lookup
  show "status (fst (handle e r w)) = 204"
    if "r = PatchProduct actor pid b \<and> validateProductPatch e b = [] \<and> hasValidField b
            \<and> \<not> fails e ProductSave"
    using that by (simp add: product_defs resp_def)
  from own lookup idp
  show "find (\<lambda>p. id_product p = pid) (products (snd (handle e r w)))
              = Some (p\<lparr>name := assign_if_defined (b_name b) (name p),
                        description := assign_if_defined (b_description b) (description p),
                        sku := assign_if_defined (b_sku b) (sku p),
                        manufacturer := assign_if_defined (b_manufacturer b) (manufacturer p),
                        quantity := assign_if_defined (b_quantity b) (quantity p)\<rparr>)"
    if "r = PatchProduct actor pid b \<and> validateProductPatch e b = [] \<and> hasValidField b
            \<and> \<not> fails e ProductSave"
    using that by (simp add: product_defs find_map_preserved)
qed

theorem product_existence_before_ownership_witness:
  "find (\<lambda>p. id_product p = ''99999999-9999-4999-8999-999999999999'') (products world0) = None
   \<and> handle env0 (PutProduct alice ''99999999-9999-4999-8999-999999999999'' gadget_body) world0
       = (resp 404 BEmpty, world0\<lparr>calls := [ProductFindByPk]\<rparr>)
   \<and> find (\<lambda>p. id_product p = id_product widget) (products world0) = Some widget
   \<and> owner_user_id widget \<noteq> id_user alice
   \<and> handle env0 (DeleteProduct alice (id_product widget)) world0
       = (resp 403 BEmpty, world0\<lparr>calls := [ProductFindByPk]\<rparr>)
   \<and> owner_user_id widget = id_user bob
   \<and> fst (handle env0 (GetProduct bob (id_product widget)) world0) = resp 200 (BProduct widget)
   \<and> status (fst (handle env0 (DeleteProduct bob (id_product widget)) world0)) = 204
   \<and> find (\<lambda>p. id_product p = id_product widget)
        (products (snd (handle env0 (DeleteProduct bob (id_product widget)) world0))) = None"
proof -
  have ok: "\<not> fails env0 ProductFindByPk" and ok': "\<not> fails env0 ProductDestroy"
    by (simp_all add: env0_def)
  have missing:
    "find (\<lambda>p. id_product p = ''99999999-9999-4999-8999-999999999999'') (products world0) = None"
    by (simp add: world0_def widget_def)
  have found: "find (\<lambda>p. id_product p = id_product widget) (products world0) = Some widget"
    by (simp add: world0_def)
  have other: "owner_user_id widget \<noteq> id_user alice"
    and own: "owner_user_id widget = id_user bob"
    by (simp_all add: widget_def alice_def bob_def)
  have c: "calls world0 = []"
    by (simp add: world0_def)
  note a = product_existence_before_ownership
    [of env0 "PutProduct alice ''99999999-9999-4999-8999-999999999999'' gadget_body"
        alice "''99999999-9999-4999-8999-999999999999''" gadget_body world0, OF ok]
  note b = product_existence_before_ownership
    [of env0 "DeleteProduct alice (id_product widget)"
        alice "id_product widget" gadget_body world0, OF ok]
  note g = product_existence_before_ownership
    [of env0 "GetProduct bob (id_product widget)"
        bob "id_product widget" gadget_body world0, OF ok]
  note d = product_existence_before_ownership
    [of env0 "DeleteProduct bob (id_product widget)"
        bob "id_product widget" gadget_body world0, OF ok]
  show ?thesis
    using missing found other own ok' c a b g d by simp
qed

section \<open>Ownership of images\<close>

lemma find_None_weaken: "find P xs = None \<Longrightarrow> find (\<lambda>x. P x \<and> Q x) xs = None"
  by (induction xs) (auto split: if_splits)

lemma find_key_unique:
  "distinct (map f xs) \<Longrightarrow> find (\<lambda>x. f x = k) xs = Some p \<Longrightarrow> \<not> Q p
    \<Longrightarrow> find (\<lambda>x. f x = k \<and> Q x) xs = None"
proof (induction xs)
  case Nil
  then show ?case by simp
next
  case (Cons x xs)
  show ?case
  proof (cases "f x = k")
    case True
    with Cons.prems have "p = x" by simp
    moreover from Cons.prems(1) True have "k \<notin> f ` set xs" by simp
    then have "\<forall>y \<in> set xs. f y \<noteq> k" by blast
    then have "find (\<lambda>x. f x = k \<and> Q x) xs = None"
      by (auto simp add: find_None_iff)
    ultimately show ?thesis using Cons.prems by simp
  next
    case False
    with Cons show ?thesis by simp
  qed
qed

lemmas image_defs =
  post_image_def get_image_def get_images_def delete_image_def not_found_or_forbidden_def
  Product_findOne_def Image_findOne_def Image_findAll_def Image_create_def Image_destroy_def
  uploadImageToS3_def deleteImageFromS3_def call_def

lemma image_gate:
  assumes "r \<in> {PostImage actor pid (Some f), GetImages actor pid,
                   GetImage actor pid iid, DeleteImage actor pid iid}"
    and "\<not> fails e ProductFindOne"
    and "find (\<lambda>p. id_product p = pid \<and> owner_user_id p = id_user actor) (products w) = None"
  shows "handle e r w = (resp 403 not_found_or_forbidden, w\<lparr>calls := calls w @ [ProductFindOne]\<rparr>)"
  using assms by (auto simp add: image_defs)

text \<open>
  C2, as the code has it. The image operations (POST and GET on
  /v1/product/:productId/image, GET and DELETE on /v1/product/:productId/image/:imageId)
  look the product up by id and owner in one query, so a product id that no product has
  and a product owned by another actor get the same answer: 403 "Product not found or
  you do not have permission", with nothing but the lookup done. The owner is not
  answered 403. A POST without a file is answered 400 before the lookup.
\<close>

theorem image_owner_gate_forbidden:
  assumes op: "r \<in> {PostImage actor pid (Some f), GetImages actor pid,
                   GetImage actor pid iid, DeleteImage actor pid iid}"
    and lookup: "\<not> fails e ProductFindOne"
    and pk: "distinct (map id_product (products w))"
  shows
   "(find (\<lambda>p. id_product p = pid) (products w) = None \<longrightarrow>
       handle e r w
         = (resp 403 not_found_or_forbidden, w\<lparr>calls := calls w @ [ProductFindOne]\<rparr>))
  \<and> (\<forall>p. find (\<lambda>p. id_product p = pid) (products w) = Some p
           \<and> owner_user_id p \<noteq> id_user actor \<longrightarrow>
       handle e r w
         = (resp 403 not_found_or_forbidden, w\<lparr>calls := calls w @ [ProductFindOne]\<rparr>))
  \<and> (\<forall>p. find (\<lambda>p. id_product p = pid) (products w) = Some p
           \<and> owner_user_id p = id_user actor \<longrightarrow>
       status (fst (handle e r w)) \<noteq> 403)
  \<and> handle e (PostImage actor pid None) w = (resp 400 (BError ''No image file provided''), w)"
proof (intro conjI allI impI)
  assume "find (\<lambda>p. id_product p = pid) (products w) = None"
  then have "find (\<lambda>p. id_product p = pid \<and> owner_user_id p = id_user actor) (products w) = None"
    by (rule find_None_weaken)
  with op lookup
  show "handle e r w
         = (resp 403 not_found_or_forbidden, w\<lparr>calls := calls w @ [ProductFindOne]\<rparr>)"
    by (rule image_gate)
next
  fix p
  assume "find (\<lambda>p. id_product p = pid) (products w) = Some p
           \<and> owner_user_id p \<noteq> id_user actor"
  with pk
  have "find (\<lambda>p. id_product p = pid \<and> owner_user_id p = id_user actor) (products w) = None"
    by (auto intro: find_key_unique)
  with op lookup
  show "handle e r w
         = (resp 403 not_found_or_forbidden, w\<lparr>calls := calls w @ [ProductFindOne]\<rparr>)"
    by (rule image_gate)
next
  fix p
  assume own: "find (\<lambda>p. id_product p = pid) (products w) = Some p
           \<and> owner_user_id p = id_user actor"
  then have "find (\<lambda>p. id_product p = pid \<and> owner_user_id p = id_user actor) (products w) \<noteq> None"
    by (auto simp add: find_None_iff find_Some_iff)
  with op lookup
  show "status (fst (handle e r w)) \<noteq> 403"
    by (auto simp add: image_defs resp_def Let_def split: prod.splits sum.splits if_splits option.splits)
next
  show "handle e (PostImage actor pid None) w = (resp 400 (BError ''No image file provided''), w)"
    by (simp add: post_image_def)
qed

text \<open>
  C2 as stated fails: no product has the id below, and each of the four image operations
  answers 403, not 404 (and the upload without a file 400).
\<close>

theorem image_missing_product_counterexample:
  "find (\<lambda>p. id_product p = ''99999999-9999-4999-8999-999999999999'') (products world0) = None
   \<and> status (fst (handle env0
        (GetImages bob ''99999999-9999-4999-8999-999999999999'') world0)) = 403
   \<and> status (fst (handle env0
        (GetImages bob ''99999999-9999-4999-8999-999999999999'') world0)) \<noteq> 404
   \<and> status (fst (handle env0
        (DeleteImage bob ''99999999-9999-4999-8999-999999999999'' (image_id photo)) world0)) = 403
   \<and> status (fst (handle env0
        (GetImage bob ''99999999-9999-4999-8999-999999999999'' (image_id photo)) world0)) = 403
   \<and> status (fst (handle env0
        (PostImage bob ''99999999-9999-4999-8999-999999999999'' (Some png_file)) world0)) = 403
   \<and> status (fst (handle env0
        (PostImage bob ''99999999-9999-4999-8999-999999999999'' None) world0)) = 400"
  by (simp add: image_defs env0_def world0_def widget_def bob_def resp_def)

theorem image_owner_gate_forbidden_witness:
  "distinct (map id_product (products world0))
   \<and> find (\<lambda>p. id_product p = ''99999999-9999-4999-8999-999999999999'') (products world0) = None
   \<and> handle env0 (GetImages bob ''99999999-9999-4999-8999-999999999999'') world0
       = (resp 403 not_found_or_forbidden, world0\<lparr>calls := [ProductFindOne]\<rparr>)
   \<and> find (\<lambda>p. id_product p = id_product widget) (products world0) = Some widget
   \<and> owner_user_id widget \<noteq> id_user alice
   \<and> handle env0 (DeleteImage alice (id_product widget) (image_id photo)) world0
       = (resp 403 not_found_or_forbidden, world0\<lparr>calls := [ProductFindOne]\<rparr>)
   \<and> owner_user_id widget = id_user bob
   \<and> status (fst (handle env0 (DeleteImage bob (id_product widget) (image_id photo)) world0))
       \<noteq> 403"
proof -
  have ok: "\<not> fails env0 ProductFindOne"
    by (simp add: env0_def)
  have pk: "distinct (map id_product (products world0))"
    by (simp add: world0_def)
  have missing:
    "find (\<lambda>p. id_product p = ''99999999-9999-4999-8999-999999999999'') (products world0) = None"
    by (simp add: world0_def widget_def)
  have found: "find (\<lambda>p. id_product p = id_product widget) (products world0) = Some widget"
    by (simp add: world0_def)
  have other: "owner_user_id widget \<noteq> id_user alice"
    and own: "owner_user_id widget = id_user bob"
    by (simp_all add: widget_def alice_def bob_def)
  have c: "calls world0 = []"
    by (simp add: world0_def)
  note a = image_owner_gate_forbidden
    [of "GetImages bob ''99999999-9999-4999-8999-999999999999''"
        bob "''99999999-9999-4999-8999-999999999999''" png_file "image_id photo" env0 world0,
     OF _ ok pk]
  note b = image_owner_gate_forbidden
    [of "DeleteImage alice (id_product widget) (image_id photo)"
        alice "id_product widget" png_file "image_id photo" env0 world0, OF _ ok pk]
  note d = image_owner_gate_forbidden
    [of "DeleteImage bob (id_product widget) (image_id photo)"
        bob "id_product widget" png_file "image_id photo" env0 world0, OF _ ok pk]
  show ?thesis
    using pk missing found other own c a b d by simp
qed

section \<open>Deleting an attachment\<close>

text \<open>
  C7. Deleting an attachment calls the object store before the database. When the
  storage delete fails the answer is 500, the images table and the stored objects are as
  before, and the row is never destroyed. When it succeeds the row is destroyed after
  it; if the destroy then fails the answer is 500 and the bytes are already gone.
\<close>

theorem delete_image_storage_first:
  assumes "find (\<lambda>p. id_product p = pid \<and> owner_user_id p = id_user actor) (products w) = Some p"
    and "find (\<lambda>i. image_id i = iid \<and> product_id i = pid) (images w) = Some i"
    and "\<not> fails e ProductFindOne" and "\<not> fails e ImageFindOne"
  shows
   "(fails e S3Delete \<longrightarrow>
       delete_image e actor pid iid w
         = (resp 500 (BError ''Failed to delete image''),
            w\<lparr>calls := calls w @ [ProductFindOne, ImageFindOne, S3Delete]\<rparr>))
  \<and> (\<not> fails e S3Delete \<and> \<not> fails e ImageDestroy \<longrightarrow>
       delete_image e actor pid iid w
         = (resp 204 BEmpty,
            w\<lparr>calls := calls w @ [ProductFindOne, ImageFindOne, S3Delete, ImageDestroy],
              s3_objects := filter (\<lambda>kv. fst kv \<noteq> s3_bucket_path i) (s3_objects w),
              images := filter (\<lambda>j. image_id j \<noteq> iid) (images w)\<rparr>))
  \<and> (\<not> fails e S3Delete \<and> fails e ImageDestroy \<longrightarrow>
       delete_image e actor pid iid w
         = (resp 500 (BError ''Failed to delete image''),
            w\<lparr>calls := calls w @ [ProductFindOne, ImageFindOne, S3Delete, ImageDestroy],
              s3_objects := filter (\<lambda>kv. fst kv \<noteq> s3_bucket_path i) (s3_objects w)\<rparr>))"
proof -
  from assms(2) have "image_id i = iid"
    by (auto simp add: find_Some_iff)
  with assms show ?thesis
    by (simp add: delete_image_def Product_findOne_def Image_findOne_def
        deleteImageFromS3_def Image_destroy_def call_def)
qed

theorem delete_image_storage_first_witness:
  "find (\<lambda>p. id_product p = id_product widget \<and> owner_user_id p = id_user bob)
     (products world0) = Some widget
   \<and> find (\<lambda>i. image_id i = image_id photo \<and> product_id i = id_product widget)
       (images world0) = Some photo
   \<and> fails (env0\<lparr>fails := (\<lambda>c. c = S3Delete)\<rparr>) S3Delete
   \<and> status (fst (delete_image (env0\<lparr>fails := (\<lambda>c. c = S3Delete)\<rparr>) bob (id_product widget)
        (image_id photo) world0)) = 500
   \<and> images (snd (delete_image (env0\<lparr>fails := (\<lambda>c. c = S3Delete)\<rparr>) bob (id_product widget)
        (image_id photo) world0)) = [photo]
   \<and> s3_objects (snd (delete_image (env0\<lparr>fails := (\<lambda>c. c = S3Delete)\<rparr>) bob
        (id_product widget) (image_id photo) world0)) = [(s3_bucket_path photo, [137, 80, 78, 71])]
   \<and> status (fst (delete_image env0 bob (id_product widget) (image_id photo) world0)) = 204
   \<and> images (snd (delete_image env0 bob (id_product widget) (image_id photo) world0)) = []
   \<and> s3_objects (snd (delete_image env0 bob (id_product widget) (image_id photo) world0)) = []
   \<and> calls (snd (delete_image env0 bob (id_product widget) (image_id photo) world0))
       = [ProductFindOne, ImageFindOne, S3Delete, ImageDestroy]"
proof -
  have fp: "find (\<lambda>p. id_product p = id_product widget \<and> owner_user_id p = id_user bob)
              (products world0) = Some widget"
    by (simp add: world0_def widget_def bob_def)
  have fi: "find (\<lambda>i. image_id i = image_id photo \<and> product_id i = id_product widget)
              (images world0) = Some photo"
    by (simp add: world0_def widget_def photo_def)
  have ok: "\<not> fails env0 ProductFindOne" "\<not> fails env0 ImageFindOne"
    and ok': "\<not> fails env0 S3Delete" "\<not> fails env0 ImageDestroy"
    and bad: "\<not> fails (env0\<lparr>fails := (\<lambda>c. c = S3Delete)\<rparr>) ProductFindOne"
             "\<not> fails (env0\<lparr>fails := (\<lambda>c. c = S3Delete)\<rparr>) ImageFindOne"
    and bad': "fails (env0\<lparr>fails := (\<lambda>c. c = S3Delete)\<rparr>) S3Delete"
    by (simp_all add: env0_def)
  have w: "images world0 = [photo]" "calls world0 = []"
      "s3_objects world0 = [(s3_bucket_path photo, [137, 80, 78, 71])]"
    by (simp_all add: world0_def)
  note a = delete_image_storage_first [OF fp fi bad, THEN conjunct1, rule_format, OF bad']
  note b = delete_image_storage_first [OF fp fi ok, THEN conjunct2, THEN conjunct1,
             rule_format, OF conjI, OF ok']
  show ?thesis
    using fp fi bad' w a b by (simp add: resp_def)
qed

section \<open>Registration\<close>

text \<open>
  C8. A valid registration (the validator reports no error, the four fields are present,
  the username is an email no identity has yet, the lookup and the insert do not throw)
  whose notification publish fails is still answered 201 with the serialized identity,
  and the new row is in the users table; nothing was published.
\<close>

theorem registration_survives_publish_failure:
  assumes "validateUserCreate e b = []"
    and "b_first_name b = Some fn" and "b_last_name b = Some ln"
    and "b_password b = Some pw" and "b_username b = Some un"
    and "isEmail e un"
    and "find (\<lambda>u. username u = un) (users w) = None"
    and "\<not> fails e UserFindOne" and "\<not> fails e UserCreate"
    and "fails e SnsPublish"
    and "u = \<lparr>id_user = default_uuid e, first_name = fn, last_name = ln,
              password = bcrypt_hash e pw, username = un,
              account_created = now e, account_updated = now e, email_verified = False,
              verification_token = Some (uuidv4 e),
              verification_token_expiry = Some (now e + 60000)\<rparr>"
  shows "post_user e b w
          = (resp 201 (BObject (toJSON u)),
             w\<lparr>calls := calls w @ [UserFindOne, UserCreate, SnsPublish],
               users := users w @ [u]\<rparr>)"
  using assms
  by (simp add: post_user_def User_findOne_def User_create_def publishUserRegistration_def
      call_def Let_def)

theorem registration_survives_publish_failure_witness:
  "validateUserCreate (env0\<lparr>fails := (\<lambda>c. c = SnsPublish)\<rparr>) carol_body = []
   \<and> find (\<lambda>u. username u = ''carol@example.com'') (users world0) = None
   \<and> fails (env0\<lparr>fails := (\<lambda>c. c = SnsPublish)\<rparr>) SnsPublish
   \<and> status (fst (post_user (env0\<lparr>fails := (\<lambda>c. c = SnsPublish)\<rparr>) carol_body world0)) = 201
   \<and> map username (users (snd (post_user (env0\<lparr>fails := (\<lambda>c. c = SnsPublish)\<rparr>)
        carol_body world0))) = [''alice@example.com'', ''bob@example.com'', ''carol@example.com'']
   \<and> sns_sent (snd (post_user (env0\<lparr>fails := (\<lambda>c. c = SnsPublish)\<rparr>) carol_body world0)) = []"
proof -
  let ?e = "env0\<lparr>fails := (\<lambda>c. c = SnsPublish)\<rparr>"
  have v: "validateUserCreate ?e carol_body = []"
    and m: "isEmail ?e ''carol@example.com''"
    and ok: "\<not> fails ?e UserFindOne" "\<not> fails ?e UserCreate"
    and bad: "fails ?e SnsPublish"
    by (simp_all add: env0_def)
  have fr: "find (\<lambda>u. username u = ''carol@example.com'') (users world0) = None"
    by (simp add: world0_def alice_def bob_def)
  have b: "b_first_name carol_body = Some ''Carol''" "b_last_name carol_body = Some ''Danvers''"
      "b_password carol_body = Some ''s3cret!''" "b_username carol_body = Some ''carol@example.com''"
    by (simp_all add: carol_body_def)
  note a = registration_survives_publish_failure [OF v b m fr ok bad refl]
  show ?thesis
    using v fr bad a by (simp add: resp_def world0_def alice_def bob_def)
qed

section \<open>Serialized identities\<close>

lemma toJSON_keys:
  "map fst (toJSON u) =
    [''id'', ''first_name'', ''last_name'', ''username'', ''account_created'',
     ''account_updated'', ''email_verified'']"
  by (simp add: toJSON_def user_get_def js_delete_def)

lemma identity_keys_resp [simp]: "identity_keys (body (resp st b)) = identity_keys b"
  by (simp add: resp_def)

lemma toJSON_no_secrets: "set (map fst (toJSON u)) \<inter> set secret_keys = {}"
  unfolding toJSON_keys secret_keys_def by simp

lemma identity_body_cases:
  assumes "r \<in> {PostUser b, GetUserSelf actor, GetUserById actor userId}"
  shows "(\<exists>u. body (fst (handle e r w)) = BObject (toJSON u))
       \<or> (identity_keys (body (fst (handle e r w))) = []
          \<and> status (fst (handle e r w)) \<notin> {200, 201})"
  using assms
  by (auto simp add: post_user_def get_user_self_def get_user_by_id_def post_user_catch_def
      identity_keys_def Let_def resp_def
      split: prod.splits sum.splits option.splits if_splits)

text \<open>
  C6. The body of every answer of the registration handler, of GET /v1/user/self and of
  GET /v1/user/:userId carries none of the keys password, verification_token and
  verification_token_expiry; when the answer is 200 or 201 the body is the identity,
  with exactly the seven other columns.
\<close>

theorem identity_representation_hides_secrets:
  assumes "r \<in> {PostUser b, GetUserSelf actor, GetUserById actor userId}"
  shows "set (identity_keys (body (fst (handle e r w)))) \<inter> set secret_keys = {}
       \<and> (status (fst (handle e r w)) \<in> {200, 201} \<longrightarrow>
            identity_keys (body (fst (handle e r w)))
              = [''id'', ''first_name'', ''last_name'', ''username'', ''account_created'',
                 ''account_updated'', ''email_verified''])"
proof -
  from identity_body_cases [OF assms, of e w]
  show ?thesis
  proof
    assume "\<exists>u. body (fst (handle e r w)) = BObject (toJSON u)"
    then obtain u where "body (fst (handle e r w)) = BObject (toJSON u)" ..
    then have "identity_keys (body (fst (handle e r w))) = map fst (toJSON u)"
      by (simp add: identity_keys_def)
    then show ?thesis
      using toJSON_no_secrets [of u] by (simp add: toJSON_keys)
  next
    assume "identity_keys (body (fst (handle e r w))) = []
          \<and> status (fst (handle e r w)) \<notin> {200, 201}"
    then show ?thesis by simp
  qed
qed

theorem identity_representation_hides_secrets_witness:
  "status (fst (handle env0 (PostUser carol_body) world0)) = 201
   \<and> identity_keys (body (fst (handle env0 (PostUser carol_body) world0)))
       = [''id'', ''first_name'', ''last_name'', ''username'', ''account_created'',
          ''account_updated'', ''email_verified'']
   \<and> set (identity_keys (body (fst (handle env0 (PostUser carol_body) world0))))
        \<inter> set secret_keys = {}
   \<and> set (identity_keys (body (fst (handle env0 (GetUserSelf alice) world0))))
        \<inter> set secret_keys = {}
   \<and> status (fst (handle env0 (GetUserById bob (id_user bob)) world0)) = 200
   \<and> set (identity_keys (body (fst (handle env0 (GetUserById bob (id_user bob)) world0))))
        \<inter> set secret_keys = {}"
proof -
  have s1: "status (fst (handle env0 (PostUser carol_body) world0)) = 201"
    by (simp add: post_user_def User_findOne_def User_create_def publishUserRegistration_def
        call_def Let_def env0_def world0_def carol_body_def alice_def bob_def resp_def)
  have "isValidUUID (id_user bob)"
    by code_simp
  then have s2: "status (fst (handle env0 (GetUserById bob (id_user bob)) world0)) = 200"
    by (simp add: get_user_by_id_def User_findByPk_def
        call_def env0_def world0_def alice_def bob_def resp_def)
  note a = identity_representation_hides_secrets
    [of "PostUser carol_body" carol_body alice "id_user bob" env0 world0, simplified]
  note b = identity_representation_hides_secrets
    [of "GetUserSelf alice" carol_body alice "id_user bob" env0 world0, simplified]
  note c = identity_representation_hides_secrets
    [of "GetUserById bob (id_user bob)" carol_body bob "id_user bob" env0 world0, simplified]
  from a s1 have a2: "identity_keys (body (fst (handle env0 (PostUser carol_body) world0)))
       = [''id'', ''first_name'', ''last_name'', ''username'', ''account_created'',
          ''account_updated'', ''email_verified'']"
    by simp
  from a have a1: "set (identity_keys (body (fst (handle env0 (PostUser carol_body) world0))))
        \<inter> set secret_keys = {}"
    by simp
  from b have b1: "set (identity_keys (body (fst (handle env0 (GetUserSelf alice) world0))))
        \<inter> set secret_keys = {}"
    by simp
  from c have c1: "set (identity_keys (body (fst (handle env0 (GetUserById bob (id_user bob)) world0))))
        \<inter> set secret_keys = {}"
    by simp
  show ?thesis
    by (intro conjI s1 s2 a1 a2 b1 c1)
qed

section \<open>The invariants of the identity record\<close>

lemmas user_defs =
  post_user_def get_user_verify_def get_user_self_def get_user_by_id_def put_user_by_id_def
  post_user_catch_def User_findOne_def User_findByPk_def User_create_def User_save_def
  publishUserRegistration_def call_def

lemma post_user_users:
  "(status (fst (post_user e b w)) = 201
      \<and> (\<exists>u. users (snd (post_user e b w)) = users w @ [u]
             \<and> verification_fields u = (False, Some (uuidv4 e), Some (now e + 60000))))
   \<or> (status (fst (post_user e b w)) = 400 \<and> users (snd (post_user e b w)) = users w)"
  by (auto simp add: user_defs Let_def resp_def verification_fields_def
      split: option.splits if_splits)

lemma get_user_verify_users:
  "(fst (get_user_verify e email token w) = resp 200 (BMessage ''Email verified successfully'')
      \<and> (\<exists>x \<in> set (users w). users (snd (get_user_verify e email token w))
            = map (\<lambda>u. if id_user u = id_user x
                        then u\<lparr>email_verified := True, verification_token := None,
                               verification_token_expiry := None, account_updated := now e\<rparr>
                        else u) (users w)))
   \<or> (fst (get_user_verify e email token w) \<noteq> resp 200 (BMessage ''Email verified successfully'')
      \<and> users (snd (get_user_verify e email token w)) = users w)"
  by (auto simp add: user_defs Let_def resp_def find_Some_iff
      split: option.splits if_splits)

lemma other_requests_keep_verification_fields:
  assumes "\<And>b. r \<noteq> PostUser b" and "\<And>email token. r \<noteq> GetUserVerify email token"
  shows "map verification_fields (users (snd (handle e r w))) = map verification_fields (users w)"
proof (cases r)
  case (PutUserById actor userId b)
  then show ?thesis
    by (auto simp add: user_defs Let_def verification_fields_def
        split: option.splits if_splits)
next
  case (Healthz m rb)
  then show ?thesis
    by (simp add: healthz_def healthz_get_def healthz_all_def HealthCheck_create_def call_def
        Let_def)
qed (use assms in \<open>auto simp add: user_defs product_defs image_defs get_products_def
       post_product_def Product_findAll_def Product_create_def Let_def
       split: option.splits if_splits prod.splits\<close>)


lemma ball_by_image:
  assumes "map f xs = map f ys"
  shows "(\<forall>u \<in> set xs. P (f u)) = (\<forall>u \<in> set ys. P (f u))"
proof -
  from assms have "set (map f xs) = set (map f ys)" by simp
  then have "f ` set xs = f ` set ys" by simp
  then have "(\<forall>v \<in> f ` set xs. P v) = (\<forall>v \<in> f ` set ys. P v)" by simp
  then show ?thesis by simp
qed

lemma identity_inv_fields:
  "identity_inv u = (case verification_fields u of
                       (v, t, x) \<Rightarrow> (v \<longrightarrow> t = None) \<and> (t = None) = (x = None))"
  by (simp add: identity_inv_def verification_fields_def)

lemma identity_inv_by_fields:
  assumes "map verification_fields xs = map verification_fields ys"
  shows "(\<forall>u \<in> set xs. identity_inv u) = (\<forall>u \<in> set ys. identity_inv u)"
  unfolding identity_inv_fields using assms by (rule ball_by_image)



text \<open>
  C5. Whatever the operation, if every identity in the users table satisfies the two
  invariants (verified implies no token; token and expiry both null or both set) before
  it, every identity satisfies them after it. Registration either answers 201 and adds
  one identity, unverified and with the token and the expiry both set, or answers 400
  and leaves the table alone. Verification either succeeds and sets the identity found
  to verified with both token fields cleared, or leaves the table alone. No other
  operation changes the three fields of any identity.
\<close>

theorem identity_invariants_preserved:
  assumes inv: "\<forall>u \<in> set (users w). identity_inv u"
  shows "(\<forall>u \<in> set (users (snd (handle e r w))). identity_inv u)
   \<and> (\<forall>b. r = PostUser b \<longrightarrow>
        (status (fst (handle e r w)) = 201
           \<and> (\<exists>u. users (snd (handle e r w)) = users w @ [u]
                  \<and> verification_fields u = (False, Some (uuidv4 e), Some (now e + 60000))))
        \<or> (status (fst (handle e r w)) = 400 \<and> users (snd (handle e r w)) = users w))
   \<and> (\<forall>email token. r = GetUserVerify email token \<longrightarrow>
        (fst (handle e r w) = resp 200 (BMessage ''Email verified successfully'')
           \<and> (\<exists>x \<in> set (users w). users (snd (handle e r w))
                 = map (\<lambda>u. if id_user u = id_user x
                             then u\<lparr>email_verified := True, verification_token := None,
                                    verification_token_expiry := None,
                                    account_updated := now e\<rparr>
                             else u) (users w)))
        \<or> (fst (handle e r w) \<noteq> resp 200 (BMessage ''Email verified successfully'')
           \<and> users (snd (handle e r w)) = users w))
   \<and> ((\<forall>b. r \<noteq> PostUser b) \<and> (\<forall>email token. r \<noteq> GetUserVerify email token) \<longrightarrow>
        map verification_fields (users (snd (handle e r w)))
          = map verification_fields (users w))"
proof (intro conjI allI impI)
  show "\<forall>u \<in> set (users (snd (handle e r w))). identity_inv u"
  proof (cases "(\<exists>b. r = PostUser b) \<or> (\<exists>email token. r = GetUserVerify email token)")
    case False
    then have "map verification_fields (users (snd (handle e r w)))
                 = map verification_fields (users w)"
      by (intro other_requests_keep_verification_fields) auto
    then have "(\<forall>u \<in> set (users (snd (handle e r w))). identity_inv u)
                = (\<forall>u \<in> set (users w). identity_inv u)"
      by (rule identity_inv_by_fields)
    with inv show ?thesis by blast
  next
    case True
    then show ?thesis
    proof (elim disjE exE)
      fix b assume r: "r = PostUser b"
      from post_user_users [of e b w]
      show ?thesis
      proof
        assume "status (fst (post_user e b w)) = 201
          \<and> (\<exists>u. users (snd (post_user e b w)) = users w @ [u]
             \<and> verification_fields u = (False, Some (uuidv4 e), Some (now e + 60000)))"
        then obtain u where u: "users (snd (post_user e b w)) = users w @ [u]"
          and f: "verification_fields u = (False, Some (uuidv4 e), Some (now e + 60000))"
          by blast
        from f have "identity_inv u"
          by (simp add: identity_inv_fields)
        with inv u r show ?thesis by simp
      next
        assume "status (fst (post_user e b w)) = 400
                 \<and> users (snd (post_user e b w)) = users w"
        with inv r show ?thesis by simp
      qed
    next
      fix email token assume r: "r = GetUserVerify email token"
      from get_user_verify_users [of e email token w]
      show ?thesis
      proof
        assume "fst (get_user_verify e email token w)
                  = resp 200 (BMessage ''Email verified successfully'')
          \<and> (\<exists>x \<in> set (users w). users (snd (get_user_verify e email token w))
            = map (\<lambda>u. if id_user u = id_user x
                        then u\<lparr>email_verified := True, verification_token := None,
                               verification_token_expiry := None, account_updated := now e\<rparr>
                        else u) (users w))"
        then obtain x :: user where
          "users (snd (get_user_verify e email token w))
            = map (\<lambda>u. if id_user u = id_user x
                        then u\<lparr>email_verified := True, verification_token := None,
                               verification_token_expiry := None, account_updated := now e\<rparr>
                        else u) (users w)"
          by blast
        with inv r show ?thesis
          by (auto simp add: identity_inv_def)
      next
        assume "fst (get_user_verify e email token w)
                  \<noteq> resp 200 (BMessage ''Email verified successfully'')
                \<and> users (snd (get_user_verify e email token w)) = users w"
        with inv r show ?thesis by simp
      qed
    qed
  qed
next
  fix b assume "r = PostUser b"
  with post_user_users [of e b w]
  show "(status (fst (handle e r w)) = 201
           \<and> (\<exists>u. users (snd (handle e r w)) = users w @ [u]
                  \<and> verification_fields u = (False, Some (uuidv4 e), Some (now e + 60000))))
        \<or> (status (fst (handle e r w)) = 400 \<and> users (snd (handle e r w)) = users w)"
    by simp
next
  fix email token assume "r = GetUserVerify email token"
  with get_user_verify_users [of e email token w]
  show "(fst (handle e r w) = resp 200 (BMessage ''Email verified successfully'')
           \<and> (\<exists>x \<in> set (users w). users (snd (handle e r w))
                 = map (\<lambda>u. if id_user u = id_user x
                             then u\<lparr>email_verified := True, verification_token := None,
                                    verification_token_expiry := None,
                                    account_updated := now e\<rparr>
                             else u) (users w)))
        \<or> (fst (handle e r w) \<noteq> resp 200 (BMessage ''Email verified successfully'')
           \<and> users (snd (handle e r w)) = users w)"
    by simp
next
  assume "(\<forall>b. r \<noteq> PostUser b) \<and> (\<forall>email token. r \<noteq> GetUserVerify email token)"
  then show "map verification_fields (users (snd (handle e r w)))
          = map verification_fields (users w)"
    by (intro other_requests_keep_verification_fields) auto
qed

theorem identity_invariants_preserved_witness:
  "list_all identity_inv (users world0)
   \<and> status (fst (handle env0 (PostUser carol_body) world0)) = 201
   \<and> list_all identity_inv (users (snd (handle env0 (PostUser carol_body) world0)))
   \<and> list_all identity_inv (users (snd (handle env0
        (GetUserVerify (Some ''alice@example.com'')
           (Some ''aaaaaaaa-0000-4000-8000-000000000001'')) world0)))
   \<and> map verification_fields (users (snd (handle env0
        (PutUserById bob (id_user bob) carol_body) world0)))
       = map verification_fields (users world0)"
proof -
  have inv0: "\<forall>u \<in> set (users world0). identity_inv u"
    by (simp add: world0_def alice_def bob_def identity_inv_def)
  have s1: "status (fst (handle env0 (PostUser carol_body) world0)) = 201"
    by (simp add: user_defs Let_def env0_def world0_def carol_body_def alice_def bob_def
        resp_def)
  note a = identity_invariants_preserved [OF inv0, of env0 "PostUser carol_body", THEN conjunct1]
  note b = identity_invariants_preserved [OF inv0, of env0
             "GetUserVerify (Some ''alice@example.com'')
                (Some ''aaaaaaaa-0000-4000-8000-000000000001'')", THEN conjunct1]
  have c: "map verification_fields (users (snd (handle env0
               (PutUserById bob (id_user bob) carol_body) world0)))
             = map verification_fields (users world0)"
    using identity_invariants_preserved [OF inv0, of env0
            "PutUserById bob (id_user bob) carol_body"]
    by simp
  show ?thesis
    unfolding list_all_iff by (intro conjI inv0 s1 a b c)
qed

section \<open>Malformed user ids\<close>

text \<open>The regular expression of \<open>isValidUUID\<close> accepts exactly the well-formed
  UUIDs.\<close>

lemma hex_run_Some:
  "hex_run n s = Some r \<longleftrightarrow> (\<exists>h. s = h @ r \<and> length h = n \<and> list_all is_hex h)"
proof (induction n s rule: hex_run.induct)
  case (1 s)
  then show ?case by auto
next
  case (2 n)
  then show ?case by auto
next
  case (3 n c cs)
  show ?case
  proof (cases "is_hex c")
    case True
    with 3 show ?thesis
      by (auto simp add: length_Suc_conv Cons_eq_append_conv)
  next
    case False
    then show ?thesis
      by (auto simp add: length_Suc_conv Cons_eq_append_conv)
  qed
qed

lemma hyphen_Some: "hyphen s = Some r \<longleftrightarrow> s = CHR ''-'' # r"
  by (cases s) auto

lemma group_then_hyphen:
  "Option.bind (hex_run n s) hyphen = Some r
    \<longleftrightarrow> (\<exists>h. s = h @ CHR ''-'' # r \<and> length h = n \<and> list_all is_hex h)"
  by (auto simp add: bind_eq_Some_conv hex_run_Some hyphen_Some)

lemma fits_x: "fits (CHR ''x'') c = is_hex c"
  by (simp add: fits_def)

lemma fits_run:
  "list_all2 fits (replicate n (CHR ''x'')) h \<longleftrightarrow> length h = n \<and> list_all is_hex h"
proof (induction n arbitrary: h)
  case 0
  show ?case by auto
next
  case (Suc n)
  show ?case
  proof (cases h)
    case Nil
    then show ?thesis by simp
  next
    case (Cons c cs)
    with Suc [of cs] show ?thesis
      by (auto simp add: fits_x)
  qed
qed

lemma fits_group:
  "list_all2 fits (replicate n (CHR ''x'') @ t) s
    \<longleftrightarrow> (\<exists>h r. s = h @ r \<and> length h = n \<and> list_all is_hex h \<and> list_all2 fits t r)"
proof
  assume "list_all2 fits (replicate n (CHR ''x'') @ t) s"
  then obtain h r where "s = h @ r" "list_all2 fits (replicate n (CHR ''x'')) h"
    "list_all2 fits t r"
    unfolding list_all2_append1 by blast
  then show "\<exists>h r. s = h @ r \<and> length h = n \<and> list_all is_hex h \<and> list_all2 fits t r"
    unfolding fits_run by blast
next
  assume "\<exists>h r. s = h @ r \<and> length h = n \<and> list_all is_hex h \<and> list_all2 fits t r"
  then obtain h r where s: "s = h @ r" and h: "list_all2 fits (replicate n (CHR ''x'')) h"
    and r: "list_all2 fits t r"
    unfolding fits_run by blast
  from h r show "list_all2 fits (replicate n (CHR ''x'') @ t) s"
    unfolding s by (rule list_all2_appendI)
qed

lemma fits_hyphen:
  "list_all2 fits (CHR ''-'' # t) s \<longleftrightarrow> (\<exists>r. s = CHR ''-'' # r \<and> list_all2 fits t r)"
  by (auto simp add: list_all2_Cons1 fits_def)



lemma isValidUUID_groups:
  "isValidUUID s \<longleftrightarrow>
    (\<exists>a b c d f. s = a @ CHR ''-'' # b @ CHR ''-'' # c @ CHR ''-'' # d @ CHR ''-'' # f
       \<and> length a = 8 \<and> length b = 4 \<and> length c = 4 \<and> length d = 4 \<and> length f = 12
       \<and> list_all is_hex a \<and> list_all is_hex b \<and> list_all is_hex c
       \<and> list_all is_hex d \<and> list_all is_hex f)"
proof
  assume "isValidUUID s"
  then obtain s1 s2 s3 s4 where
    1: "Option.bind (hex_run 8 s) hyphen = Some s1" and
    2: "Option.bind (hex_run 4 s1) hyphen = Some s2" and
    3: "Option.bind (hex_run 4 s2) hyphen = Some s3" and
    4: "Option.bind (hex_run 4 s3) hyphen = Some s4" and
    5: "hex_run 12 s4 = Some []"
    by (auto simp add: isValidUUID_def split: option.splits)
  from 1 obtain a where a: "s = a @ CHR ''-'' # s1" "length a = 8" "list_all is_hex a"
    unfolding group_then_hyphen by blast
  from 2 obtain b where b: "s1 = b @ CHR ''-'' # s2" "length b = 4" "list_all is_hex b"
    unfolding group_then_hyphen by blast
  from 3 obtain c where c: "s2 = c @ CHR ''-'' # s3" "length c = 4" "list_all is_hex c"
    unfolding group_then_hyphen by blast
  from 4 obtain d where d: "s3 = d @ CHR ''-'' # s4" "length d = 4" "list_all is_hex d"
    unfolding group_then_hyphen by blast
  from 5 have f: "length s4 = 12" "list_all is_hex s4"
    unfolding hex_run_Some by auto
  from a b c d f show "\<exists>a b c d f. s = a @ CHR ''-'' # b @ CHR ''-'' # c @ CHR ''-'' # d @ CHR ''-'' # f
       \<and> length a = 8 \<and> length b = 4 \<and> length c = 4 \<and> length d = 4 \<and> length f = 12
       \<and> list_all is_hex a \<and> list_all is_hex b \<and> list_all is_hex c
       \<and> list_all is_hex d \<and> list_all is_hex f"
    by blast
next
  assume "\<exists>a b c d f. s = a @ CHR ''-'' # b @ CHR ''-'' # c @ CHR ''-'' # d @ CHR ''-'' # f
       \<and> length a = 8 \<and> length b = 4 \<and> length c = 4 \<and> length d = 4 \<and> length f = 12
       \<and> list_all is_hex a \<and> list_all is_hex b \<and> list_all is_hex c
       \<and> list_all is_hex d \<and> list_all is_hex f"
  then obtain a b c d f where
    s: "s = a @ CHR ''-'' # b @ CHR ''-'' # c @ CHR ''-'' # d @ CHR ''-'' # f"
    and l: "length a = 8" "length b = 4" "length c = 4" "length d = 4" "length f = 12"
    and h: "list_all is_hex a" "list_all is_hex b" "list_all is_hex c"
           "list_all is_hex d" "list_all is_hex f"
    by blast
  from l h have
    1: "Option.bind (hex_run 8 (a @ CHR ''-'' # b @ CHR ''-'' # c @ CHR ''-'' # d @ CHR ''-'' # f)) hyphen
         = Some (b @ CHR ''-'' # c @ CHR ''-'' # d @ CHR ''-'' # f)" and
    2: "Option.bind (hex_run 4 (b @ CHR ''-'' # c @ CHR ''-'' # d @ CHR ''-'' # f)) hyphen
         = Some (c @ CHR ''-'' # d @ CHR ''-'' # f)" and
    3: "Option.bind (hex_run 4 (c @ CHR ''-'' # d @ CHR ''-'' # f)) hyphen
         = Some (d @ CHR ''-'' # f)" and
    4: "Option.bind (hex_run 4 (d @ CHR ''-'' # f)) hyphen = Some f" and
    5: "hex_run 12 f = Some []"
    unfolding group_then_hyphen hex_run_Some by auto
  show "isValidUUID s"
    unfolding isValidUUID_def s by (simp only: 1 2 3 4 5 option.case)
qed

lemma fits_group_hyphen:
  "list_all2 fits (replicate n (CHR ''x'') @ CHR ''-'' # t) s
    \<longleftrightarrow> (\<exists>h r. s = h @ CHR ''-'' # r \<and> length h = n \<and> list_all is_hex h
           \<and> list_all2 fits t r)"
  unfolding fits_group fits_hyphen by blast

lemma uuid_template_groups:
  "uuid_template =
    replicate 8 (CHR ''x'') @ CHR ''-'' # replicate 4 (CHR ''x'') @ CHR ''-'' #
    replicate 4 (CHR ''x'') @ CHR ''-'' # replicate 4 (CHR ''x'') @ CHR ''-'' #
    replicate 12 (CHR ''x'')"
  unfolding uuid_template_def by simp

lemma well_formed_uuid_groups:
  "well_formed_uuid s \<longleftrightarrow>
    (\<exists>a b c d f. s = a @ CHR ''-'' # b @ CHR ''-'' # c @ CHR ''-'' # d @ CHR ''-'' # f
       \<and> length a = 8 \<and> length b = 4 \<and> length c = 4 \<and> length d = 4 \<and> length f = 12
       \<and> list_all is_hex a \<and> list_all is_hex b \<and> list_all is_hex c
       \<and> list_all is_hex d \<and> list_all is_hex f)"
proof
  assume "well_formed_uuid s"
  then have "list_all2 fits
    (replicate 8 (CHR ''x'') @ CHR ''-'' # replicate 4 (CHR ''x'') @ CHR ''-'' #
     replicate 4 (CHR ''x'') @ CHR ''-'' # replicate 4 (CHR ''x'') @ CHR ''-'' #
     replicate 12 (CHR ''x'')) s"
    unfolding well_formed_uuid_def uuid_template_groups .
  then obtain a s1 where a: "s = a @ CHR ''-'' # s1" "length a = 8" "list_all is_hex a"
    and 1: "list_all2 fits
      (replicate 4 (CHR ''x'') @ CHR ''-'' # replicate 4 (CHR ''x'') @ CHR ''-'' #
       replicate 4 (CHR ''x'') @ CHR ''-'' # replicate 12 (CHR ''x'')) s1"
    unfolding fits_group_hyphen [of 8] by blast
  from 1 obtain b s2 where b: "s1 = b @ CHR ''-'' # s2" "length b = 4" "list_all is_hex b"
    and 2: "list_all2 fits
      (replicate 4 (CHR ''x'') @ CHR ''-'' # replicate 4 (CHR ''x'') @ CHR ''-'' #
       replicate 12 (CHR ''x'')) s2"
    unfolding fits_group_hyphen [of 4 "replicate 4 (CHR ''x'') @ CHR ''-'' #
       replicate 4 (CHR ''x'') @ CHR ''-'' # replicate 12 (CHR ''x'')"] by blast
  from 2 obtain c s3 where c: "s2 = c @ CHR ''-'' # s3" "length c = 4" "list_all is_hex c"
    and 3: "list_all2 fits (replicate 4 (CHR ''x'') @ CHR ''-'' # replicate 12 (CHR ''x'')) s3"
    unfolding fits_group_hyphen [of 4 "replicate 4 (CHR ''x'') @ CHR ''-'' #
       replicate 12 (CHR ''x'')"] by blast
  from 3 obtain d s4 where d: "s3 = d @ CHR ''-'' # s4" "length d = 4" "list_all is_hex d"
    and 4: "list_all2 fits (replicate 12 (CHR ''x'')) s4"
    unfolding fits_group_hyphen [of 4 "replicate 12 (CHR ''x'')"] by blast
  from 4 have f: "length s4 = 12" "list_all is_hex s4"
    unfolding fits_run by simp_all
  from a b c d f
  show "\<exists>a b c d f. s = a @ CHR ''-'' # b @ CHR ''-'' # c @ CHR ''-'' # d @ CHR ''-'' # f
       \<and> length a = 8 \<and> length b = 4 \<and> length c = 4 \<and> length d = 4 \<and> length f = 12
       \<and> list_all is_hex a \<and> list_all is_hex b \<and> list_all is_hex c
       \<and> list_all is_hex d \<and> list_all is_hex f"
    by blast
next
  assume "\<exists>a b c d f. s = a @ CHR ''-'' # b @ CHR ''-'' # c @ CHR ''-'' # d @ CHR ''-'' # f
       \<and> length a = 8 \<and> length b = 4 \<and> length c = 4 \<and> length d = 4 \<and> length f = 12
       \<and> list_all is_hex a \<and> list_all is_hex b \<and> list_all is_hex c
       \<and> list_all is_hex d \<and> list_all is_hex f"
  then obtain a b c d f where
    s: "s = a @ CHR ''-'' # b @ CHR ''-'' # c @ CHR ''-'' # d @ CHR ''-'' # f"
    and l: "length a = 8" "length b = 4" "length c = 4" "length d = 4" "length f = 12"
    and h: "list_all is_hex a" "list_all is_hex b" "list_all is_hex c"
           "list_all is_hex d" "list_all is_hex f"
    by blast
  from l(5) h(5) have 5: "list_all2 fits (replicate 12 (CHR ''x'')) f"
    unfolding fits_run by simp
  from l(4) h(4) 5
  have 4: "list_all2 fits (replicate 4 (CHR ''x'') @ CHR ''-'' # replicate 12 (CHR ''x''))
             (d @ CHR ''-'' # f)"
    unfolding fits_group_hyphen by blast
  from l(3) h(3) 4
  have 3: "list_all2 fits (replicate 4 (CHR ''x'') @ CHR ''-'' #
             replicate 4 (CHR ''x'') @ CHR ''-'' # replicate 12 (CHR ''x''))
             (c @ CHR ''-'' # d @ CHR ''-'' # f)"
    unfolding fits_group_hyphen [of 4 "replicate 4 (CHR ''x'') @ CHR ''-'' #
       replicate 12 (CHR ''x'')"] by blast
  from l(2) h(2) 3
  have 2: "list_all2 fits (replicate 4 (CHR ''x'') @ CHR ''-'' #
             replicate 4 (CHR ''x'') @ CHR ''-'' #
             replicate 4 (CHR ''x'') @ CHR ''-'' # replicate 12 (CHR ''x''))
             (b @ CHR ''-'' # c @ CHR ''-'' # d @ CHR ''-'' # f)"
    unfolding fits_group_hyphen [of 4 "replicate 4 (CHR ''x'') @ CHR ''-'' #
       replicate 4 (CHR ''x'') @ CHR ''-'' # replicate 12 (CHR ''x'')"] by blast
  from l(1) h(1) 2
  have "list_all2 fits (replicate 8 (CHR ''x'') @ CHR ''-'' #
             replicate 4 (CHR ''x'') @ CHR ''-'' #
             replicate 4 (CHR ''x'') @ CHR ''-'' #
             replicate 4 (CHR ''x'') @ CHR ''-'' # replicate 12 (CHR ''x''))
             (a @ CHR ''-'' # b @ CHR ''-'' # c @ CHR ''-'' # d @ CHR ''-'' # f)"
    unfolding fits_group_hyphen [of 8] by blast
  then show "well_formed_uuid s"
    unfolding well_formed_uuid_def uuid_template_groups s .
qed

lemma isValidUUID_well_formed: "isValidUUID s = well_formed_uuid s"
  unfolding isValidUUID_groups well_formed_uuid_groups ..

text \<open>
  C10. When the userId path segment is not a well-formed UUID, GET /v1/user/:userId and
  PUT /v1/user/:userId answer 400 with an empty body and return the world exactly as it
  was: no collaborator call is recorded, so no user was looked up or changed.
\<close>

theorem malformed_uuid_rejected_before_lookup:
  assumes "\<not> well_formed_uuid userId"
  shows "get_user_by_id e actor userId w = (resp 400 BEmpty, w)
       \<and> put_user_by_id e actor userId b w = (resp 400 BEmpty, w)"
  using assms
  by (simp add: get_user_by_id_def put_user_by_id_def isValidUUID_well_formed)

theorem malformed_uuid_rejected_before_lookup_witness:
  "\<not> well_formed_uuid ''2222222-2222-4222-8222-222222222222''
   \<and> get_user_by_id env0 bob ''2222222-2222-4222-8222-222222222222'' world0
       = (resp 400 BEmpty, world0)
   \<and> \<not> well_formed_uuid ''g2222222-2222-4222-8222-222222222222''
   \<and> put_user_by_id env0 bob ''g2222222-2222-4222-8222-222222222222'' carol_body world0
       = (resp 400 BEmpty, world0)
   \<and> well_formed_uuid (id_user bob)
   \<and> status (fst (get_user_by_id env0 bob (id_user bob) world0)) = 200"
proof -
  have short: "\<not> well_formed_uuid ''2222222-2222-4222-8222-222222222222''"
    by code_simp
  have nohex: "\<not> well_formed_uuid ''g2222222-2222-4222-8222-222222222222''"
    by code_simp
  have good: "well_formed_uuid (id_user bob)"
    by code_simp
  then have s: "status (fst (get_user_by_id env0 bob (id_user bob) world0)) = 200"
    by (simp add: get_user_by_id_def isValidUUID_well_formed User_findByPk_def call_def
        env0_def world0_def alice_def bob_def resp_def)
  note a = malformed_uuid_rejected_before_lookup [OF short, of env0 bob world0 carol_body,
             THEN conjunct1]
  note b = malformed_uuid_rejected_before_lookup [OF nohex, of env0 bob world0 carol_body,
             THEN conjunct2]
  show ?thesis
    by (intro conjI short nohex good s a b)
qed

section \<open>The health check\<close>

text \<open>
  C9, where the code departs from the claim: a HEAD request to /healthz is dispatched to
  the GET handler, which inserts a health check row and answers 200, not 405.
\<close>

theorem healthz_head_answers_200:
  "healthz env0 HEAD (BodyObject []) world0
     = (\<lparr>status = 200, headers = no_cache_headers, body = BEmpty\<rparr>,
        world0\<lparr>health_checks := [now env0], calls := [HealthCheckCreate]\<rparr>)"
  by (simp add: healthz_def get_route_handles_def healthz_get_def has_payload_def
      HealthCheck_create_def call_def env0_def world0_def)

text \<open>The rest of the health check contract holds: a GET without payload is answered 200
  with an empty body and the no-cache headers when the insert succeeds and 503 when it
  fails, a GET with a payload 400, and every method other than GET and HEAD 405.\<close>

lemma healthz_contract:
  "(\<not> has_payload rb \<and> \<not> fails e HealthCheckCreate \<longrightarrow>
      fst (healthz e GET rb w) = \<lparr>status = 200, headers = no_cache_headers, body = BEmpty\<rparr>)
   \<and> (\<not> has_payload rb \<and> fails e HealthCheckCreate \<longrightarrow>
      fst (healthz e GET rb w) = \<lparr>status = 503, headers = no_cache_headers, body = BEmpty\<rparr>)
   \<and> (has_payload rb \<longrightarrow>
      healthz e GET rb w = (\<lparr>status = 400, headers = no_cache_headers, body = BEmpty\<rparr>, w))
   \<and> (m \<noteq> GET \<and> m \<noteq> HEAD \<longrightarrow>
      healthz e m rb w = (\<lparr>status = 405, headers = no_cache_headers, body = BEmpty\<rparr>, w))"
  by (simp add: healthz_def get_route_handles_def healthz_get_def healthz_all_def
      HealthCheck_create_def call_def Let_def)


end
